theory Spec2Isabelle
  imports Main
begin

section \<open>Python values and failures\<close>

text \<open>
  The exceptions the parsing layer can raise.  \<open>AttributeError\<close> is what Python
  raises when an attribute is read from \<open>None\<close> or from an object lacking it,
  \<open>TypeError\<close> when \<open>None\<close> is iterated or handed to \<open>int\<close> or to the date
  parser, \<open>ValueError\<close> when a text is not a number or not a date, and
  \<open>ParseError\<close> stands for the XML parser rejecting a document.
\<close>

datatype error = AttributeError | TypeError | ValueError | ParseError

text \<open>
  An HTTP response as this layer reads it: \<open>response.headers\<close>, a sequence of
  (name, value) pairs or \<open>None\<close>, and \<open>response.body\<close>, a buffer or \<open>None\<close>.
  A response that is itself \<open>None\<close> is the value \<open>None\<close> of type
  \<open>response option\<close>.
\<close>

record response =
  headers :: "(string \<times> string option) list option"
  body :: "string option"

text \<open>Values that the header conversions store in property fields.\<close>

datatype 'ts pyval = PNone | PStr string | PInt int | PDate 'ts

text \<open>
  A property object: the attributes set directly on it, and the nested
  sub-objects (\<open>content_settings\<close>, \<open>lease\<close>, \<open>copy\<close>) that its class
  allocated, each with its own attributes.
\<close>

record 'ts props =
  attrs :: "string \<rightharpoonup> 'ts pyval"
  subrecords :: "string \<rightharpoonup> (string \<rightharpoonup> 'ts pyval)"

section \<open>Header property extractor (\<open>azure/storage/_deserialization.py\<close>)\<close>

text \<open>The three conversion functions named in the property table.\<close>

datatype conv = ParserParse | StrOrNone | IntOrNone

text \<open>
  Modelled from the spec: \<open>_str_or_none\<close> of \<open>_common_conversion\<close> is not among
  the sources; the specification describes it as the identity/string-or-none
  conversion.
\<close>

definition str_or_none :: "string option \<Rightarrow> string option" where
  "str_or_none v = v"

text \<open>
  \<open>_int_or_none\<close>: \<open>value if value is None else int(value)\<close>.  The builtin
  \<open>int\<close> is the parameter \<open>py_int\<close>, which answers \<open>None\<close> where \<open>int\<close>
  raises \<open>ValueError\<close>.
\<close>

definition int_or_none :: "(string \<Rightarrow> int option) \<Rightarrow> string option \<Rightarrow> error + 'ts pyval" where
  "int_or_none py_int v =
     (case v of
        None \<Rightarrow> Inr PNone
      | Some s \<Rightarrow> (case py_int s of None \<Rightarrow> Inl ValueError | Some i \<Rightarrow> Inr (PInt i)))"

text \<open>
  \<open>dateutil.parser.parse\<close> is the parameter \<open>parse_date\<close> on texts, answering
  \<open>None\<close> where the library raises \<open>ValueError\<close>; handed \<open>None\<close> instead of a
  text the library raises as well.
\<close>

definition parser_parse :: "(string \<Rightarrow> 'ts option) \<Rightarrow> string option \<Rightarrow> error + 'ts" where
  "parser_parse parse_date v =
     (case v of
        None \<Rightarrow> Inl TypeError
      | Some s \<Rightarrow> (case parse_date s of None \<Rightarrow> Inl ValueError | Some d \<Rightarrow> Inr d))"

definition apply_conv ::
  "(string \<Rightarrow> 'ts option) \<Rightarrow> (string \<Rightarrow> int option) \<Rightarrow> conv \<Rightarrow> string option \<Rightarrow> error + 'ts pyval" where
  "apply_conv parse_date py_int c v =
     (case c of
        ParserParse \<Rightarrow> (case parser_parse parse_date v of Inl e \<Rightarrow> Inl e | Inr d \<Rightarrow> Inr (PDate d))
      | StrOrNone \<Rightarrow> Inr (case str_or_none v of None \<Rightarrow> PNone | Some s \<Rightarrow> PStr s)
      | IntOrNone \<Rightarrow> int_or_none py_int v)"

text \<open>
  \<open>GET_PROPERTIES_ATTRIBUTE_MAP\<close>: header name to (sub-object or none, field,
  conversion), entry by entry as in the source.
\<close>

definition GET_PROPERTIES_ATTRIBUTE_TABLE :: "(string \<times> (string option \<times> string \<times> conv)) list" where
  "GET_PROPERTIES_ATTRIBUTE_TABLE =
    [(''last-modified'', (None, ''last_modified'', ParserParse)),
     (''etag'', (None, ''etag'', StrOrNone)),
     (''x-ms-blob-type'', (None, ''blob_type'', StrOrNone)),
     (''content-length'', (None, ''content_length'', IntOrNone)),
     (''x-ms-blob-sequence-number'', (None, ''page_blob_sequence_number'', IntOrNone)),
     (''x-ms-blob-committed-block-count'', (None, ''append_blob_committed_block_count'', IntOrNone)),
     (''content-type'', (Some ''content_settings'', ''content_type'', StrOrNone)),
     (''cache-control'', (Some ''content_settings'', ''cache_control'', StrOrNone)),
     (''content-encoding'', (Some ''content_settings'', ''content_encoding'', StrOrNone)),
     (''content-disposition'', (Some ''content_settings'', ''content_disposition'', StrOrNone)),
     (''content-language'', (Some ''content_settings'', ''content_language'', StrOrNone)),
     (''content-md5'', (Some ''content_settings'', ''content_md5'', StrOrNone)),
     (''x-ms-lease-status'', (Some ''lease'', ''status'', StrOrNone)),
     (''x-ms-lease-state'', (Some ''lease'', ''state'', StrOrNone)),
     (''x-ms-lease-duration'', (Some ''lease'', ''duration'', StrOrNone)),
     (''x-ms-copy-id'', (Some ''copy'', ''id'', StrOrNone)),
     (''x-ms-copy-source'', (Some ''copy'', ''source'', StrOrNone)),
     (''x-ms-copy-status'', (Some ''copy'', ''status'', StrOrNone)),
     (''x-ms-copy-progress'', (Some ''copy'', ''progress'', StrOrNone)),
     (''x-ms-copy-completion-time'', (Some ''copy'', ''completion_time'', StrOrNone)),
     (''x-ms-copy-status-description'', (Some ''copy'', ''status_description'', StrOrNone))]"

text \<open>\<open>GET_PROPERTIES_ATTRIBUTE_MAP.get(key)\<close>: an exact comparison of the key.\<close>

definition GET_PROPERTIES_ATTRIBUTE_MAP :: "string \<rightharpoonup> (string option \<times> string \<times> conv)" where
  "GET_PROPERTIES_ATTRIBUTE_MAP = map_of GET_PROPERTIES_ATTRIBUTE_TABLE"

text \<open>\<open>s.startswith(p)\<close>.\<close>

definition startswith :: "string \<Rightarrow> string \<Rightarrow> bool" where
  "startswith s p = (take (length p) s = p)"

text \<open>
  One round of the loop \<open>for key, value in response.headers\<close> of
  \<open>_parse_properties\<close>, on the pair (\<open>props\<close>, \<open>metadata\<close>).
\<close>

definition parse_header ::
  "(string \<Rightarrow> 'ts option) \<Rightarrow> (string \<Rightarrow> int option) \<Rightarrow>
   'ts props \<times> (string \<rightharpoonup> string option) \<Rightarrow> string \<times> string option \<Rightarrow>
   error + ('ts props \<times> (string \<rightharpoonup> string option))" where
  "parse_header parse_date py_int pm kv =
     (case pm of (props, metadata) \<Rightarrow>
      case kv of (key, val) \<Rightarrow>
      (case GET_PROPERTIES_ATTRIBUTE_MAP key of
         Some (sub, field, c) \<Rightarrow>
           (case sub of
              None \<Rightarrow>
                (case apply_conv parse_date py_int c val of
                   Inl e \<Rightarrow> Inl e
                 | Inr v \<Rightarrow> Inr (props\<lparr>attrs := (attrs props)(field \<mapsto> v)\<rparr>, metadata))
            | Some s \<Rightarrow>
                (case subrecords props s of
                   None \<Rightarrow> Inl AttributeError
                 | Some attr \<Rightarrow>
                     (case apply_conv parse_date py_int c val of
                        Inl e \<Rightarrow> Inl e
                      | Inr v \<Rightarrow>
                          Inr (props\<lparr>subrecords := (subrecords props)(s \<mapsto> attr(field \<mapsto> v))\<rparr>,
                               metadata))))
       | None \<Rightarrow>
           (if startswith key ''x-ms-meta-''
            then Inr (props, metadata(key \<mapsto> str_or_none val))
            else Inr (props, metadata))))"

fun parse_headers ::
  "(string \<Rightarrow> 'ts option) \<Rightarrow> (string \<Rightarrow> int option) \<Rightarrow>
   'ts props \<times> (string \<rightharpoonup> string option) \<Rightarrow> (string \<times> string option) list \<Rightarrow>
   error + ('ts props \<times> (string \<rightharpoonup> string option))" where
  "parse_headers parse_date py_int pm [] = Inr pm"
| "parse_headers parse_date py_int pm (kv # kvs) =
     (case parse_header parse_date py_int pm kv of
        Inl e \<Rightarrow> Inl e
      | Inr pm' \<Rightarrow> parse_headers parse_date py_int pm' kvs)"

text \<open>
  The guard of \<open>_parse_properties\<close>,
  \<open>response is None and response.headers is not None\<close>: the right operand is
  evaluated only when the left one holds, and it reads an attribute of
  \<open>response\<close>.
\<close>

definition headers_guard :: "response option \<Rightarrow> error + bool" where
  "headers_guard response =
     (if response = None
      then (case response of None \<Rightarrow> Inl AttributeError | Some r \<Rightarrow> Inr (headers r \<noteq> None))
      else Inr False)"

text \<open>
  \<open>_parse_properties(response, properties_class)\<close>.  The parameter
  \<open>properties_class\<close> is the fresh object \<open>properties_class()\<close>.  The result is
  the pair the source returns, each half possibly \<open>None\<close>.
\<close>

definition parse_properties ::
  "'ts props \<Rightarrow> (string \<Rightarrow> 'ts option) \<Rightarrow> (string \<Rightarrow> int option) \<Rightarrow> response option \<Rightarrow>
   error + ('ts props option \<times> (string \<rightharpoonup> string option) option)" where
  "parse_properties properties_class parse_date py_int response =
     (case headers_guard response of
        Inl e \<Rightarrow> Inl e
      | Inr True \<Rightarrow> Inr (None, None)
      | Inr False \<Rightarrow>
          (case response of
             None \<Rightarrow> Inl AttributeError
           | Some r \<Rightarrow>
               (case headers r of
                  None \<Rightarrow> Inl TypeError
                | Some hs \<Rightarrow>
                    (case parse_headers parse_date py_int (properties_class, Map.empty) hs of
                       Inl e \<Rightarrow> Inl e
                     | Inr (props, metadata) \<Rightarrow> Inr (Some props, Some metadata)))))"

section \<open>The XML tree and the \<open>ElementTree\<close> calls used\<close>

text \<open>
  An element as \<open>xml.etree.ElementTree\<close> gives it: its tag, its text (\<open>None\<close>
  for an element without character data before its first child) and its
  children in document order.
\<close>

datatype element = Element (elem_tag: string) (elem_text: "string option") (elem_children: "element list")

text \<open>\<open>e.find(tag)\<close>: the first child with that tag, or \<open>None\<close>.\<close>

definition find_elem :: "element \<Rightarrow> string \<Rightarrow> element option" where
  "find_elem e t = List.find (\<lambda>c. elem_tag c = t) (elem_children e)"

text \<open>\<open>e.findall(tag)\<close>: the children with that tag, in document order.\<close>

definition findall :: "element \<Rightarrow> string \<Rightarrow> element list" where
  "findall e t = filter (\<lambda>c. elem_tag c = t) (elem_children e)"

text \<open>
  \<open>e.findtext(tag)\<close>: \<open>None\<close> when no child has the tag, the empty string when
  the first such child has no text, its text otherwise.
\<close>

definition findtext :: "element \<Rightarrow> string \<Rightarrow> string option" where
  "findtext e t =
     (case find_elem e t of
        None \<Rightarrow> None
      | Some c \<Rightarrow> (case elem_text c of None \<Rightarrow> Some [] | Some s \<Rightarrow> Some s))"

text \<open>Sequencing of steps that may raise.\<close>

definition bind_err :: "error + 'a \<Rightarrow> ('a \<Rightarrow> error + 'b) \<Rightarrow> error + 'b" where
  "bind_err m f = (case m of Inl e \<Rightarrow> Inl e | Inr x \<Rightarrow> f x)"

text \<open>\<open>e.find(tag).text\<close>: reading \<open>text\<close> from \<open>None\<close> raises.\<close>

definition find_dot_text :: "element \<Rightarrow> string \<Rightarrow> error + string option" where
  "find_dot_text e t =
     (case find_elem e t of None \<Rightarrow> Inl AttributeError | Some c \<Rightarrow> Inr (elem_text c))"

text \<open>\<open>int(v)\<close> on a text or \<open>None\<close>.\<close>

definition int_of :: "(string \<Rightarrow> int option) \<Rightarrow> string option \<Rightarrow> error + int" where
  "int_of py_int v =
     (case v of
        None \<Rightarrow> Inl TypeError
      | Some s \<Rightarrow> (case py_int s of None \<Rightarrow> Inl ValueError | Some i \<Rightarrow> Inr i))"

text \<open>\<open>x or None\<close> on a text or \<open>None\<close>: the empty string is false.\<close>

definition or_none :: "string option \<Rightarrow> string option" where
  "or_none x = (case x of None \<Rightarrow> None | Some s \<Rightarrow> (if s = [] then None else Some s))"

text \<open>\<open>s.split(',')\<close>.\<close>

fun split_sep :: "char \<Rightarrow> string \<Rightarrow> string list" where
  "split_sep sep [] = [[]]"
| "split_sep sep (x # xs) =
     (if x = sep then [] # split_sep sep xs
      else (case split_sep sep xs of [] \<Rightarrow> [[x]] | w # ws \<Rightarrow> (x # w) # ws))"

text \<open>\<open>s.lower()\<close> on the ASCII letters.\<close>

definition lower_char :: "char \<Rightarrow> char" where
  "lower_char c =
     (let n = (of_char c :: nat) in if 65 \<le> n \<and> n \<le> 90 then char_of (n + 32) else c)"

definition lower :: "string \<Rightarrow> string" where
  "lower s = map lower_char s"

text \<open>\<open>_bool(value)\<close>: \<open>value.lower() == 'true'\<close>; \<open>None\<close> has no \<open>lower\<close>.\<close>

definition bool_of :: "string option \<Rightarrow> error + bool" where
  "bool_of v = (case v of None \<Rightarrow> Inl AttributeError | Some s \<Rightarrow> Inr (lower s = ''true''))"

text \<open>
  The loop \<open>for x in xs: acc.append(f(x))\<close>, leaving at the first \<open>f(x)\<close> that
  raises.
\<close>

fun for_append :: "('a \<Rightarrow> error + 'b) \<Rightarrow> 'b list \<Rightarrow> 'a list \<Rightarrow> error + 'b list" where
  "for_append f acc [] = Inr acc"
| "for_append f acc (x # xs) =
     (case f x of Inl e \<Rightarrow> Inl e | Inr y \<Rightarrow> for_append f (acc @ [y]) xs)"

section \<open>Access policies (\<open>_convert_xml_to_signed_identifiers\<close>)\<close>

text \<open>
  Modelled from the spec: the class \<open>AccessPolicy\<close> of \<open>models\<close> is not among
  the sources; the specification gives it an optional start timestamp, an
  optional expiry timestamp and an optional permission string, so a fresh
  \<open>AccessPolicy()\<close> has all three unset.
\<close>

record 'ts access_policy =
  ap_start :: "'ts option"
  ap_expiry :: "'ts option"
  ap_permission :: "string option"

definition AccessPolicy :: "'ts access_policy" where
  "AccessPolicy = \<lparr>ap_start = None, ap_expiry = None, ap_permission = None\<rparr>"

text \<open>
  One round of the loop over the \<open>SignedIdentifier\<close> elements: the key and the
  policy that the round stores into the dictionary.
\<close>

definition convert_signed_identifier ::
  "(string \<Rightarrow> 'ts option) \<Rightarrow> element \<Rightarrow> error + (string option \<times> 'ts access_policy)" where
  "convert_signed_identifier parse_date signed_identifier_element =
     bind_err (find_dot_text signed_identifier_element ''Id'') (\<lambda>ident.
     let access_policy = AccessPolicy in
     (case find_elem signed_identifier_element ''AccessPolicy'' of
        None \<Rightarrow> Inl AttributeError
      | Some access_policy_element \<Rightarrow>
          bind_err
            (case find_elem access_policy_element ''Start'' of
               None \<Rightarrow> Inr access_policy
             | Some start_element \<Rightarrow>
                 bind_err (parser_parse parse_date (elem_text start_element))
                   (\<lambda>d. Inr (access_policy\<lparr>ap_start := Some d\<rparr>)))
            (\<lambda>access_policy.
          bind_err
            (case find_elem access_policy_element ''Expiry'' of
               None \<Rightarrow> Inr access_policy
             | Some expiry_element \<Rightarrow>
                 bind_err (parser_parse parse_date (elem_text expiry_element))
                   (\<lambda>d. Inr (access_policy\<lparr>ap_expiry := Some d\<rparr>)))
            (\<lambda>access_policy.
          Inr (ident,
               access_policy\<lparr>ap_permission := findtext access_policy_element ''Permission''\<rparr>)))))"

fun signed_identifiers_loop ::
  "(string \<Rightarrow> 'ts option) \<Rightarrow> (string option \<rightharpoonup> 'ts access_policy) \<Rightarrow> element list \<Rightarrow>
   error + (string option \<rightharpoonup> 'ts access_policy)" where
  "signed_identifiers_loop parse_date signed_identifiers [] = Inr signed_identifiers"
| "signed_identifiers_loop parse_date signed_identifiers (e # es) =
     (case convert_signed_identifier parse_date e of
        Inl err \<Rightarrow> Inl err
      | Inr (ident, access_policy) \<Rightarrow>
          signed_identifiers_loop parse_date (signed_identifiers(ident \<mapsto> access_policy)) es)"

text \<open>
  \<open>_convert_xml_to_signed_identifiers(xml)\<close>; \<open>ETree.fromstring\<close> is the
  parameter \<open>fromstring\<close>, answering \<open>None\<close> where the XML parser raises.
\<close>

definition convert_xml_to_signed_identifiers ::
  "(string \<Rightarrow> element option) \<Rightarrow> (string \<Rightarrow> 'ts option) \<Rightarrow> string \<Rightarrow>
   error + (string option \<rightharpoonup> 'ts access_policy)" where
  "convert_xml_to_signed_identifiers fromstring parse_date xml =
     (case fromstring xml of
        None \<Rightarrow> Inl ParseError
      | Some list_element \<Rightarrow>
          signed_identifiers_loop parse_date Map.empty (findall list_element ''SignedIdentifier''))"

section \<open>Service properties (\<open>_convert_xml_to_service_properties\<close>)\<close>

text \<open>
  Modelled from the spec: the classes \<open>ServiceProperties\<close>, \<open>Logging\<close>,
  \<open>Metrics\<close>, \<open>RetentionPolicy\<close> and \<open>CorsRule\<close> of \<open>models\<close> are not among the
  sources.  The specification lists their fields and says that an optional
  field is unset/null until the parser assigns it; the fields below that the
  parser always assigns need no initial value.
\<close>

record retention_policy =
  rp_enabled :: bool
  rp_days :: "int option"

record logging =
  lg_version :: "string option"
  lg_delete :: bool
  lg_read :: bool
  lg_write :: bool
  lg_retention_policy :: retention_policy

record metrics =
  mt_version :: "string option"
  mt_enabled :: bool
  mt_include_apis :: "bool option"
  mt_retention_policy :: retention_policy

record cors_rule =
  allowed_origins :: "string list"
  allowed_methods :: "string list"
  max_age_in_seconds :: int
  exposed_headers :: "string list option"
  allowed_headers :: "string list option"

record service_properties =
  sp_logging :: "logging option"
  hour_metrics :: "metrics option"
  minute_metrics :: "metrics option"
  cors :: "cors_rule list option"
  target_version :: "string option"

definition CorsRule :: "string list \<Rightarrow> string list \<Rightarrow> int \<Rightarrow> cors_rule" where
  "CorsRule origins methods max_age =
     \<lparr>allowed_origins = origins, allowed_methods = methods, max_age_in_seconds = max_age,
      exposed_headers = None, allowed_headers = None\<rparr>"

definition ServiceProperties :: service_properties where
  "ServiceProperties =
     \<lparr>sp_logging = None, hour_metrics = None, minute_metrics = None, cors = None,
      target_version = None\<rparr>"

text \<open>
  \<open>_convert_xml_to_retention_policy(xml, retention_policy)\<close>: \<open>xml\<close> is what
  \<open>find('RetentionPolicy')\<close> answered, so possibly \<open>None\<close>; the result is the
  retention policy of a fresh \<open>Logging()\<close> or \<open>Metrics()\<close> after the assignments.
\<close>

definition convert_xml_to_retention_policy ::
  "(string \<Rightarrow> int option) \<Rightarrow> element option \<Rightarrow> error + retention_policy" where
  "convert_xml_to_retention_policy py_int xml =
     (case xml of
        None \<Rightarrow> Inl AttributeError
      | Some x \<Rightarrow>
          bind_err (find_dot_text x ''Enabled'') (\<lambda>t.
          bind_err (bool_of t) (\<lambda>en.
          (case find_elem x ''Days'' of
             None \<Rightarrow> Inr \<lparr>rp_enabled = en, rp_days = None\<rparr>
           | Some days_element \<Rightarrow>
               bind_err (int_of py_int (elem_text days_element))
                 (\<lambda>d. Inr \<lparr>rp_enabled = en, rp_days = Some d\<rparr>)))))"

text \<open>\<open>_convert_xml_to_metrics(xml, metrics)\<close> on a fresh \<open>Metrics()\<close>.\<close>

definition convert_xml_to_metrics :: "(string \<Rightarrow> int option) \<Rightarrow> element \<Rightarrow> error + metrics" where
  "convert_xml_to_metrics py_int xml =
     bind_err (find_dot_text xml ''Version'') (\<lambda>version.
     bind_err (find_dot_text xml ''Enabled'') (\<lambda>t.
     bind_err (bool_of t) (\<lambda>en.
     bind_err
       (case find_elem xml ''IncludeAPIs'' of
          None \<Rightarrow> Inr None
        | Some include_apis_element \<Rightarrow>
            bind_err (bool_of (elem_text include_apis_element)) (\<lambda>b. Inr (Some b)))
       (\<lambda>include_apis.
     bind_err (convert_xml_to_retention_policy py_int (find_elem xml ''RetentionPolicy'')) (\<lambda>rp.
     Inr \<lparr>mt_version = version, mt_enabled = en, mt_include_apis = include_apis,
          mt_retention_policy = rp\<rparr>)))))"

text \<open>The block under \<open>if logging is not None\<close>.\<close>

definition convert_xml_to_logging :: "(string \<Rightarrow> int option) \<Rightarrow> element \<Rightarrow> error + logging" where
  "convert_xml_to_logging py_int logging =
     bind_err (find_dot_text logging ''Version'') (\<lambda>version.
     bind_err (find_dot_text logging ''Delete'') (\<lambda>t.
     bind_err (bool_of t) (\<lambda>del.
     bind_err (find_dot_text logging ''Read'') (\<lambda>t.
     bind_err (bool_of t) (\<lambda>rd.
     bind_err (find_dot_text logging ''Write'') (\<lambda>t.
     bind_err (bool_of t) (\<lambda>wr.
     bind_err (convert_xml_to_retention_policy py_int (find_elem logging ''RetentionPolicy'')) (\<lambda>rp.
     Inr \<lparr>lg_version = version, lg_delete = del, lg_read = rd, lg_write = wr,
          lg_retention_policy = rp\<rparr>))))))))"

text \<open>\<open>e.find(tag).text.split(',')\<close>: \<open>None\<close> has neither \<open>text\<close> nor \<open>split\<close>.\<close>

definition find_dot_text_split :: "element \<Rightarrow> string \<Rightarrow> error + string list" where
  "find_dot_text_split e t =
     bind_err (find_dot_text e t) (\<lambda>txt.
     (case txt of None \<Rightarrow> Inl AttributeError | Some s \<Rightarrow> Inr (split_sep CHR '','' s)))"

text \<open>The body of the loop \<open>for rule in cors.findall('CorsRule')\<close>.\<close>

definition convert_cors_rule :: "(string \<Rightarrow> int option) \<Rightarrow> element \<Rightarrow> error + cors_rule" where
  "convert_cors_rule py_int rule =
     bind_err (find_dot_text_split rule ''AllowedOrigins'') (\<lambda>origins.
     bind_err (find_dot_text_split rule ''AllowedMethods'') (\<lambda>methods.
     bind_err (find_dot_text rule ''MaxAgeInSeconds'') (\<lambda>t.
     bind_err (int_of py_int t) (\<lambda>max_age.
     let cors_rule = CorsRule origins methods max_age in
     bind_err (find_dot_text rule ''ExposedHeaders'') (\<lambda>exposed.
     let cors_rule =
       (case exposed of
          None \<Rightarrow> cors_rule
        | Some s \<Rightarrow> cors_rule\<lparr>exposed_headers := Some (split_sep CHR '','' s)\<rparr>) in
     bind_err (find_dot_text rule ''AllowedHeaders'') (\<lambda>allowed.
     let cors_rule =
       (case allowed of
          None \<Rightarrow> cors_rule
        | Some s \<Rightarrow> cors_rule\<lparr>allowed_headers := Some (split_sep CHR '','' s)\<rparr>) in
     Inr cors_rule))))))"

text \<open>
  An optional top-level element: nothing when it is absent, the converted
  element when it is present.
\<close>

definition if_present :: "element option \<Rightarrow> (element \<Rightarrow> error + 'a) \<Rightarrow> error + 'a option" where
  "if_present x f =
     (case x of None \<Rightarrow> Inr None | Some e \<Rightarrow> bind_err (f e) (\<lambda>y. Inr (Some y)))"

definition convert_xml_to_service_properties ::
  "(string \<Rightarrow> element option) \<Rightarrow> (string \<Rightarrow> int option) \<Rightarrow> string \<Rightarrow> error + service_properties" where
  "convert_xml_to_service_properties fromstring py_int xml =
     (case fromstring xml of
        None \<Rightarrow> Inl ParseError
      | Some service_properties_element \<Rightarrow>
          bind_err (if_present (find_elem service_properties_element ''Logging'')
                      (convert_xml_to_logging py_int)) (\<lambda>lg.
          bind_err (if_present (find_elem service_properties_element ''HourMetrics'')
                      (convert_xml_to_metrics py_int)) (\<lambda>hm.
          bind_err (if_present (find_elem service_properties_element ''MinuteMetrics'')
                      (convert_xml_to_metrics py_int)) (\<lambda>mm.
          bind_err (if_present (find_elem service_properties_element ''Cors'')
                      (\<lambda>c. for_append (convert_cors_rule py_int) [] (findall c ''CorsRule''))) (\<lambda>cs.
          Inr (ServiceProperties
                 \<lparr>sp_logging := lg, hour_metrics := hm, minute_metrics := mm, cors := cs,
                  target_version :=
                    (case find_elem service_properties_element ''DefaultServiceVersion'' of
                       None \<Rightarrow> None
                     | Some tv \<Rightarrow> elem_text tv)\<rparr>))))))"

section \<open>Listing parsers (\<open>azure/storage/file/_deserialization.py\<close>)\<close>

text \<open>
  What a listing parser returns: the \<open>response\<close> argument itself, or the typed
  result it has built.
\<close>

datatype 'a returned = ReturnedResponse "response option" | Returned 'a

text \<open>
  Modelled from the spec: the classes \<open>Share\<close>, \<open>Directory\<close>, \<open>File\<close>,
  \<open>FileAndDirectoryResults\<close>, \<open>Range\<close>, \<open>ShareStats\<close> and \<open>_list\<close> of the
  \<open>models\<close> modules are not among the sources.  The specification gives a share
  a name, optional metadata and properties (last-modified timestamp, etag,
  integer quota); a file a name and a content length; a directory a name; a
  range two integers; the share statistics one integer; and each listing a
  next marker.  A field holds \<open>None\<close> where the parser assigns \<open>None\<close> or
  leaves an optional field unset.
\<close>

record 'ts share_properties =
  last_modified :: 'ts
  etag :: "string option"
  quota :: int

record 'ts share =
  share_name :: "string option"
  share_metadata :: "(string \<rightharpoonup> string option) option"
  share_props :: "'ts share_properties"

record 'a list_with_marker =
  items :: "'a list"
  next_marker :: "string option"

record file_rec =
  file_name :: "string option"
  content_length :: int

record directory =
  directory_name :: "string option"

record file_and_directory_results =
  files :: "file_rec list"
  directories :: "directory list"
  fd_next_marker :: "string option"

record range_rec =
  range_start :: int
  range_end :: int

record share_stats =
  share_usage :: int

text \<open>
  The loop \<open>for metadata_element in metadata_root_element\<close> filling
  \<open>share.metadata\<close>.
\<close>

definition metadata_of :: "element \<Rightarrow> (string \<rightharpoonup> string option)" where
  "metadata_of metadata_root_element =
     fold (\<lambda>metadata_element md. md(elem_tag metadata_element \<mapsto> elem_text metadata_element))
       (elem_children metadata_root_element) Map.empty"

text \<open>The body of the loop \<open>for share_element in shares_element.findall('Share')\<close>.\<close>

definition convert_share ::
  "(string \<Rightarrow> 'ts option) \<Rightarrow> (string \<Rightarrow> int option) \<Rightarrow> element \<Rightarrow> error + 'ts share" where
  "convert_share parse_date py_int share_element =
     (let name = findtext share_element ''Name'';
          metadata = map_option metadata_of (find_elem share_element ''Metadata'')
      in case find_elem share_element ''Properties'' of
           None \<Rightarrow> Inl AttributeError
         | Some properties_element \<Rightarrow>
             bind_err (parser_parse parse_date (findtext properties_element ''Last-Modified'')) (\<lambda>lm.
             let e = findtext properties_element ''Etag'' in
             bind_err (int_of py_int (findtext properties_element ''Quota'')) (\<lambda>q.
             Inr \<lparr>share_name = name, share_metadata = metadata,
                  share_props = \<lparr>last_modified = lm, etag = e, quota = q\<rparr>\<rparr>)))"

definition convert_xml_to_shares ::
  "(string \<Rightarrow> element option) \<Rightarrow> (string \<Rightarrow> 'ts option) \<Rightarrow> (string \<Rightarrow> int option) \<Rightarrow>
   response option \<Rightarrow> error + 'ts share list_with_marker returned" where
  "convert_xml_to_shares fromstring parse_date py_int response =
     (case response of
        None \<Rightarrow> Inr (ReturnedResponse response)
      | Some r \<Rightarrow>
          (case body r of
             None \<Rightarrow> Inr (ReturnedResponse response)
           | Some b \<Rightarrow>
               (case fromstring b of
                  None \<Rightarrow> Inl ParseError
                | Some list_element \<Rightarrow>
                    (let marker = or_none (findtext list_element ''NextMarker'')
                     in case find_elem list_element ''Shares'' of
                          None \<Rightarrow> Inl AttributeError
                        | Some shares_element \<Rightarrow>
                            bind_err
                              (for_append (convert_share parse_date py_int) []
                                 (findall shares_element ''Share''))
                              (\<lambda>shares. Inr (Returned \<lparr>items = shares, next_marker = marker\<rparr>))))))"

text \<open>The body of the loop \<open>for file_element in entries_element.findall('File')\<close>.\<close>

definition convert_file :: "(string \<Rightarrow> int option) \<Rightarrow> element \<Rightarrow> error + file_rec" where
  "convert_file py_int file_element =
     (let name = findtext file_element ''Name''
      in case find_elem file_element ''Properties'' of
           None \<Rightarrow> Inl AttributeError
         | Some properties_element \<Rightarrow>
             bind_err (int_of py_int (findtext properties_element ''Content-Length'')) (\<lambda>n.
             Inr \<lparr>file_name = name, content_length = n\<rparr>))"

text \<open>The body of the loop over \<open>entries_element.findall('Directory')\<close>.\<close>

definition convert_directory :: "element \<Rightarrow> error + directory" where
  "convert_directory directory_element =
     Inr \<lparr>directory_name = findtext directory_element ''Name''\<rparr>"

definition convert_xml_to_directories_and_files ::
  "(string \<Rightarrow> element option) \<Rightarrow> (string \<Rightarrow> int option) \<Rightarrow> response option \<Rightarrow>
   error + file_and_directory_results returned" where
  "convert_xml_to_directories_and_files fromstring py_int response =
     (case response of
        None \<Rightarrow> Inr (ReturnedResponse response)
      | Some r \<Rightarrow>
          (case body r of
             None \<Rightarrow> Inr (ReturnedResponse response)
           | Some b \<Rightarrow>
               (case fromstring b of
                  None \<Rightarrow> Inl ParseError
                | Some list_element \<Rightarrow>
                    (let marker = or_none (findtext list_element ''NextMarker'')
                     in case find_elem list_element ''Entries'' of
                          None \<Rightarrow> Inl AttributeError
                        | Some entries_element \<Rightarrow>
                            bind_err
                              (for_append (convert_file py_int) [] (findall entries_element ''File''))
                              (\<lambda>fs.
                            bind_err
                              (for_append convert_directory [] (findall entries_element ''Directory''))
                              (\<lambda>ds.
                            Inr (Returned \<lparr>files = fs, directories = ds, fd_next_marker = marker\<rparr>)))))))"

text \<open>The body of the loop \<open>for range_element in ranges_element.findall('Range')\<close>.\<close>

definition convert_range :: "(string \<Rightarrow> int option) \<Rightarrow> element \<Rightarrow> error + range_rec" where
  "convert_range py_int range_element =
     bind_err (int_of py_int (findtext range_element ''Start'')) (\<lambda>s.
     bind_err (int_of py_int (findtext range_element ''End'')) (\<lambda>e.
     Inr \<lparr>range_start = s, range_end = e\<rparr>))"

definition convert_xml_to_ranges ::
  "(string \<Rightarrow> element option) \<Rightarrow> (string \<Rightarrow> int option) \<Rightarrow> response option \<Rightarrow>
   error + range_rec list returned" where
  "convert_xml_to_ranges fromstring py_int response =
     (case response of
        None \<Rightarrow> Inr (ReturnedResponse response)
      | Some r \<Rightarrow>
          (case body r of
             None \<Rightarrow> Inr (ReturnedResponse response)
           | Some b \<Rightarrow>
               (case fromstring b of
                  None \<Rightarrow> Inl ParseError
                | Some ranges_element \<Rightarrow>
                    bind_err (for_append (convert_range py_int) [] (findall ranges_element ''Range''))
                      (\<lambda>ranges. Inr (Returned ranges)))))"

definition convert_xml_to_share_stats ::
  "(string \<Rightarrow> element option) \<Rightarrow> (string \<Rightarrow> int option) \<Rightarrow> response option \<Rightarrow>
   error + share_stats returned" where
  "convert_xml_to_share_stats fromstring py_int response =
     (case response of
        None \<Rightarrow> Inr (ReturnedResponse response)
      | Some r \<Rightarrow>
          (case body r of
             None \<Rightarrow> Inr (ReturnedResponse response)
           | Some b \<Rightarrow>
               (case fromstring b of
                  None \<Rightarrow> Inl ParseError
                | Some share_stats_element \<Rightarrow>
                    bind_err (int_of py_int (findtext share_stats_element ''ShareUsage''))
                      (\<lambda>n. Inr (Returned \<lparr>share_usage = n\<rparr>)))))"

section \<open>Outgoing header builder (\<open>azure/storage/file/_serialization.py\<close>)\<close>

text \<open>
  A request: its header list, and whatever else the request class carries.
  The state of a call is the request, the authentication object and the list
  of requests that \<open>sign_request\<close> has been called on, oldest first.
\<close>

record request =
  req_headers :: "(string \<times> string) list"

record ('r, 'a) call_state =
  cs_request :: 'r
  cs_auth :: 'a
  cs_signed :: "'r list"

text \<open>
  \<open>authentication.sign_request(request)\<close>: the collaborator is the parameter
  \<open>sign_request\<close>, which may change the authentication object and the request,
  or raise; the call is recorded.
\<close>

definition call_sign_request ::
  "('a \<Rightarrow> 'r \<Rightarrow> error + ('a \<times> 'r)) \<Rightarrow> ('r, 'a) call_state \<Rightarrow> error + ('r, 'a) call_state" where
  "call_sign_request sign_request st =
     (case sign_request (cs_auth st) (cs_request st) of
        Inl e \<Rightarrow> Inl e
      | Inr (a, r) \<Rightarrow> Inr (st\<lparr>cs_request := r, cs_auth := a, cs_signed := cs_signed st @ [cs_request st]\<rparr>))"

text \<open>\<open>request.headers.append(h)\<close>.\<close>

definition headers_append ::
  "string \<times> string \<Rightarrow> ('z request_scheme, 'a) call_state \<Rightarrow> ('z request_scheme, 'a) call_state" where
  "headers_append h st = st\<lparr>cs_request := (cs_request st)\<lparr>req_headers := req_headers (cs_request st) @ [h]\<rparr>\<rparr>"

text \<open>
  \<open>_update_storage_file_header(request, authentication)\<close>.  The generic step
  \<open>_update_storage_header\<close> (of \<open>_serialization\<close>, not among the sources), the
  clock reading \<open>time()\<close> and \<open>format_date_time\<close> are parameters.  The result is
  the returned header list together with the final state.
\<close>

definition update_storage_file_header ::
  "('z request_scheme \<Rightarrow> error + 'z request_scheme) \<Rightarrow> 'c \<Rightarrow> ('c \<Rightarrow> string) \<Rightarrow>
   ('a \<Rightarrow> 'z request_scheme \<Rightarrow> error + ('a \<times> 'z request_scheme)) \<Rightarrow>
   'z request_scheme \<Rightarrow> 'a \<Rightarrow>
   error + ((string \<times> string) list \<times> ('z request_scheme, 'a) call_state)" where
  "update_storage_file_header update_storage_header time format_date_time sign_request request authentication =
     bind_err (update_storage_header request) (\<lambda>request.
     let st = \<lparr>cs_request = request, cs_auth = authentication, cs_signed = []\<rparr>;
         current_time = format_date_time time;
         st = headers_append (''x-ms-date'', current_time) st;
         st = headers_append (''Content-Type'', ''application/octet-stream Charset=UTF-8'') st
     in bind_err (call_sign_request sign_request st) (\<lambda>st.
        Inr (req_headers (cs_request st), st)))"

section \<open>Concrete inputs\<close>

text \<open>
  Stand-ins for the date parser and for \<open>int\<close> on a few texts, and a property
  object with two sub-objects, for evaluating the parsers on concrete inputs.
\<close>

definition example_date :: "string \<Rightarrow> nat option" where
  "example_date = map_of [(''Thu, 01 Jan 2015 00:00:00 GMT'', 1420070400)]"

definition example_int :: "string \<Rightarrow> int option" where
  "example_int = map_of [(''0'', 0), (''5'', 5), (''7'', 7), (''511'', 511)]"

definition example_properties :: "nat props" where
  "example_properties =
     \<lparr>attrs = Map.empty,
      subrecords = [''content_settings'' \<mapsto> Map.empty, ''copy'' \<mapsto> Map.empty]\<rparr>"

text \<open>
  A shares listing with one share and an empty \<open>NextMarker\<close>; in the second
  document the share has no \<open>Name\<close>, in the third neither \<open>Name\<close> nor \<open>Etag\<close>,
  in the fourth no \<open>Quota\<close>.
\<close>

definition shares_xml :: string where
  "shares_xml = ''<EnumerationResults><Shares><Share><Name>docs</Name><Properties><Last-Modified>Thu, 01 Jan 2015 00:00:00 GMT</Last-Modified><Etag>0x1</Etag><Quota>5</Quota></Properties></Share></Shares><NextMarker /></EnumerationResults>''"

definition shares_doc :: element where
  "shares_doc =
     Element ''EnumerationResults'' None
       [Element ''Shares'' None
          [Element ''Share'' None
             [Element ''Name'' (Some ''docs'') [],
              Element ''Properties'' None
                [Element ''Last-Modified'' (Some ''Thu, 01 Jan 2015 00:00:00 GMT'') [],
                 Element ''Etag'' (Some ''0x1'') [],
                 Element ''Quota'' (Some ''5'') []]]],
        Element ''NextMarker'' None []]"

definition nameless_share_xml :: string where
  "nameless_share_xml = ''<EnumerationResults><Shares><Share><Properties><Last-Modified>Thu, 01 Jan 2015 00:00:00 GMT</Last-Modified><Etag>0x1</Etag><Quota>5</Quota></Properties></Share></Shares><NextMarker /></EnumerationResults>''"

definition nameless_share_doc :: element where
  "nameless_share_doc =
     Element ''EnumerationResults'' None
       [Element ''Shares'' None
          [Element ''Share'' None
             [Element ''Properties'' None
                [Element ''Last-Modified'' (Some ''Thu, 01 Jan 2015 00:00:00 GMT'') [],
                 Element ''Etag'' (Some ''0x1'') [],
                 Element ''Quota'' (Some ''5'') []]]],
        Element ''NextMarker'' None []]"

definition bare_share_xml :: string where
  "bare_share_xml = ''<EnumerationResults><Shares><Share><Properties><Last-Modified>Thu, 01 Jan 2015 00:00:00 GMT</Last-Modified><Quota>7</Quota></Properties></Share></Shares></EnumerationResults>''"

definition bare_share_doc :: element where
  "bare_share_doc =
     Element ''EnumerationResults'' None
       [Element ''Shares'' None
          [Element ''Share'' None
             [Element ''Properties'' None
                [Element ''Last-Modified'' (Some ''Thu, 01 Jan 2015 00:00:00 GMT'') [],
                 Element ''Quota'' (Some ''7'') []]]]]"

definition quotaless_share_xml :: string where
  "quotaless_share_xml = ''<EnumerationResults><Shares><Share><Name>docs</Name><Properties><Last-Modified>Thu, 01 Jan 2015 00:00:00 GMT</Last-Modified><Etag>0x1</Etag></Properties></Share></Shares><NextMarker /></EnumerationResults>''"

definition quotaless_share_doc :: element where
  "quotaless_share_doc =
     Element ''EnumerationResults'' None
       [Element ''Shares'' None
          [Element ''Share'' None
             [Element ''Name'' (Some ''docs'') [],
              Element ''Properties'' None
                [Element ''Last-Modified'' (Some ''Thu, 01 Jan 2015 00:00:00 GMT'') [],
                 Element ''Etag'' (Some ''0x1'') []]]],
        Element ''NextMarker'' None []]"

text \<open>
  A directories-and-files listing in the document order \<open>File\<close>,
  \<open>Directory\<close>, \<open>File\<close>, with the next marker \<open>abc\<close>.
\<close>

definition entries_xml :: string where
  "entries_xml = ''<EnumerationResults><Entries><File><Name>a.txt</Name><Properties><Content-Length>5</Content-Length></Properties></File><Directory><Name>sub</Name></Directory><File><Name>b.txt</Name><Properties><Content-Length>511</Content-Length></Properties></File></Entries><NextMarker>abc</NextMarker></EnumerationResults>''"

definition entries_doc :: element where
  "entries_doc =
     Element ''EnumerationResults'' None
       [Element ''Entries'' None
          [Element ''File'' None
             [Element ''Name'' (Some ''a.txt'') [],
              Element ''Properties'' None [Element ''Content-Length'' (Some ''5'') []]],
           Element ''Directory'' None [Element ''Name'' (Some ''sub'') []],
           Element ''File'' None
             [Element ''Name'' (Some ''b.txt'') [],
              Element ''Properties'' None [Element ''Content-Length'' (Some ''511'') []]]],
        Element ''NextMarker'' (Some ''abc'') []]"

text \<open>
  Service properties with one CORS rule: in the first document the rule has
  an empty \<open>ExposedHeaders\<close> element, in the second it has none, in the third
  both \<open>ExposedHeaders\<close> and \<open>AllowedHeaders\<close> are empty elements.
\<close>

definition cors_xml :: string where
  "cors_xml = ''<StorageServiceProperties><Cors><CorsRule><AllowedOrigins>a.com,b.com</AllowedOrigins><AllowedMethods>GET,PUT</AllowedMethods><MaxAgeInSeconds>5</MaxAgeInSeconds><ExposedHeaders /><AllowedHeaders>x-ms-a,x-ms-b</AllowedHeaders></CorsRule></Cors></StorageServiceProperties>''"

definition cors_doc :: element where
  "cors_doc =
     Element ''StorageServiceProperties'' None
       [Element ''Cors'' None
          [Element ''CorsRule'' None
             [Element ''AllowedOrigins'' (Some ''a.com,b.com'') [],
              Element ''AllowedMethods'' (Some ''GET,PUT'') [],
              Element ''MaxAgeInSeconds'' (Some ''5'') [],
              Element ''ExposedHeaders'' None [],
              Element ''AllowedHeaders'' (Some ''x-ms-a,x-ms-b'') []]]]"

definition cors_unexposed_xml :: string where
  "cors_unexposed_xml = ''<StorageServiceProperties><Cors><CorsRule><AllowedOrigins>a.com,b.com</AllowedOrigins><AllowedMethods>GET,PUT</AllowedMethods><MaxAgeInSeconds>5</MaxAgeInSeconds><AllowedHeaders>x-ms-a,x-ms-b</AllowedHeaders></CorsRule></Cors></StorageServiceProperties>''"

definition cors_unexposed_doc :: element where
  "cors_unexposed_doc =
     Element ''StorageServiceProperties'' None
       [Element ''Cors'' None
          [Element ''CorsRule'' None
             [Element ''AllowedOrigins'' (Some ''a.com,b.com'') [],
              Element ''AllowedMethods'' (Some ''GET,PUT'') [],
              Element ''MaxAgeInSeconds'' (Some ''5'') [],
              Element ''AllowedHeaders'' (Some ''x-ms-a,x-ms-b'') []]]]"

definition cors_textless_xml :: string where
  "cors_textless_xml = ''<StorageServiceProperties><Cors><CorsRule><AllowedOrigins>a.com,b.com</AllowedOrigins><AllowedMethods>GET,PUT</AllowedMethods><MaxAgeInSeconds>5</MaxAgeInSeconds><ExposedHeaders /><AllowedHeaders /></CorsRule></Cors></StorageServiceProperties>''"

definition cors_textless_doc :: element where
  "cors_textless_doc =
     Element ''StorageServiceProperties'' None
       [Element ''Cors'' None
          [Element ''CorsRule'' None
             [Element ''AllowedOrigins'' (Some ''a.com,b.com'') [],
              Element ''AllowedMethods'' (Some ''GET,PUT'') [],
              Element ''MaxAgeInSeconds'' (Some ''5'') [],
              Element ''ExposedHeaders'' None [],
              Element ''AllowedHeaders'' None []]]]"

text \<open>One signed identifier with a start time and no \<open>Permission\<close>.\<close>

definition signed_identifiers_xml :: string where
  "signed_identifiers_xml = ''<SignedIdentifiers><SignedIdentifier><Id>policy1</Id><AccessPolicy><Start>Thu, 01 Jan 2015 00:00:00 GMT</Start></AccessPolicy></SignedIdentifier></SignedIdentifiers>''"

definition signed_identifiers_doc :: element where
  "signed_identifiers_doc =
     Element ''SignedIdentifiers'' None
       [Element ''SignedIdentifier'' None
          [Element ''Id'' (Some ''policy1'') [],
           Element ''AccessPolicy'' None
             [Element ''Start'' (Some ''Thu, 01 Jan 2015 00:00:00 GMT'') []]]]"

text \<open>The XML parser on these documents.\<close>

definition example_fromstring :: "string \<Rightarrow> element option" where
  "example_fromstring =
     map_of [(shares_xml, shares_doc), (nameless_share_xml, nameless_share_doc),
             (bare_share_xml, bare_share_doc), (quotaless_share_xml, quotaless_share_doc),
             (entries_xml, entries_doc),
             (cors_xml, cors_doc), (cors_unexposed_xml, cors_unexposed_doc),
             (signed_identifiers_xml, signed_identifiers_doc),
             (cors_textless_xml, cors_textless_doc)]"

text \<open>
  Collaborators for the header builder: a generic step adding one header, a
  formatter answering the date of the epoch, and a signer adding an
  \<open>Authorization\<close> header.
\<close>

definition example_update_storage_header :: "request \<Rightarrow> error + request" where
  "example_update_storage_header r =
     Inr (r\<lparr>req_headers := req_headers r @ [(''x-ms-version'', ''2015-02-21'')]\<rparr>)"

definition example_format_date_time :: "nat \<Rightarrow> string" where
  "example_format_date_time t = ''Thu, 01 Jan 1970 00:00:00 GMT''"

definition example_sign_request :: "unit \<Rightarrow> request \<Rightarrow> error + (unit \<times> request)" where
  "example_sign_request a r =
     Inr (a, r\<lparr>req_headers := req_headers r @ [(''Authorization'', ''SharedKey account:signature'')]\<rparr>)"

section \<open>Shared lemmas\<close>

lemma bind_err_Inr: "bind_err (Inr x) f = f x"
  by (simp add: bind_err_def)

lemma bind_err_Inl: "bind_err (Inl e) f = Inl e"
  by (simp add: bind_err_def)

lemma bind_err_eq_Inr: "bind_err m f = Inr y \<longleftrightarrow> (\<exists>x. m = Inr x \<and> f x = Inr y)"
  by (cases m) (simp_all add: bind_err_def)

lemma table_keys_checked:
  "list_all (\<lambda>k. \<not> startswith k ''x-ms-meta-'') (map fst GET_PROPERTIES_ATTRIBUTE_TABLE)"
  by (simp add: GET_PROPERTIES_ATTRIBUTE_TABLE_def startswith_def)

lemma table_keys_not_meta:
  assumes "startswith key ''x-ms-meta-''"
  shows "GET_PROPERTIES_ATTRIBUTE_MAP key = None"
proof -
  from table_keys_checked assms have "key \<notin> set (map fst GET_PROPERTIES_ATTRIBUTE_TABLE)"
    unfolding list_all_iff by blast
  then show ?thesis
    by (simp add: GET_PROPERTIES_ATTRIBUTE_MAP_def map_of_eq_None_iff)
qed

lemma parse_header_meta:
  "startswith key ''x-ms-meta-'' \<Longrightarrow>
   parse_header pd pi (props, md) (key, v) = Inr (props, md(key \<mapsto> v))"
  by (simp add: parse_header_def table_keys_not_meta str_or_none_def)

lemma parse_header_ignored:
  "GET_PROPERTIES_ATTRIBUTE_MAP key = None \<Longrightarrow> \<not> startswith key ''x-ms-meta-'' \<Longrightarrow>
   parse_header pd pi pm (key, v) = Inr pm"
  by (cases pm) (simp add: parse_header_def)

lemma parse_headers_append:
  "parse_headers pd pi pm (xs @ ys) =
   (case parse_headers pd pi pm xs of Inl e \<Rightarrow> Inl e | Inr pm' \<Rightarrow> parse_headers pd pi pm' ys)"
  by (induction xs arbitrary: pm) (auto split: sum.splits)

lemma parse_header_metadata_other:
  "parse_header pd pi (props, md) (key, v) = Inr (props', md') \<Longrightarrow> k \<noteq> key \<Longrightarrow> md' k = md k"
  by (auto simp: parse_header_def split: option.splits sum.splits if_splits)

lemma parse_headers_metadata_other:
  "parse_headers pd pi (props, md) hs = Inr (props', md') \<Longrightarrow> k \<notin> fst ` set hs \<Longrightarrow> md' k = md k"
proof (induction hs arbitrary: props md)
  case Nil
  then show ?case by simp
next
  case (Cons h hs)
  obtain key v where h: "h = (key, v)" by (cases h)
  from Cons.prems(1) obtain p1 m1 where
    s1: "parse_header pd pi (props, md) (key, v) = Inr (p1, m1)" and
    s2: "parse_headers pd pi (p1, m1) hs = Inr (props', md')"
    by (auto simp: h split: sum.splits)
  from Cons.prems(2) have "k \<noteq> key" "k \<notin> fst ` set hs" by (auto simp: h)
  with Cons.IH[OF s2] parse_header_metadata_other[OF s1] show ?case by simp
qed

lemma parse_headers_last_meta:
  assumes "parse_headers pd pi pm (pre @ (key, v) # post) = Inr (props, md)"
    and "startswith key ''x-ms-meta-''"
    and "key \<notin> fst ` set post"
  shows "md key = Some v"
proof -
  from assms(1) obtain p1 m1 where
    a: "parse_headers pd pi pm pre = Inr (p1, m1)" and
    b: "parse_headers pd pi (p1, m1) ((key, v) # post) = Inr (props, md)"
    by (auto simp: parse_headers_append split: sum.splits)
  from b assms(2) have "parse_headers pd pi (p1, m1(key \<mapsto> v)) post = Inr (props, md)"
    by (simp add: parse_header_meta)
  from parse_headers_metadata_other[OF this assms(3)] show ?thesis by simp
qed

lemma for_append_Inr:
  "for_append f acc xs = Inr ys \<longleftrightarrow> (\<exists>zs. ys = acc @ zs \<and> list_all2 (\<lambda>x z. f x = Inr z) xs zs)"
proof (induction xs arbitrary: acc)
  case Nil
  then show ?case by auto
next
  case (Cons x xs)
  show ?case
  proof (cases "f x")
    case (Inl e)
    then show ?thesis by (auto simp: list_all2_Cons1)
  next
    case (Inr y)
    then show ?thesis by (auto simp: Cons.IH list_all2_Cons1)
  qed
qed

lemma for_append_total:
  "\<forall>x \<in> set xs. \<exists>y. f x = Inr y \<Longrightarrow> \<exists>ys. for_append f acc xs = Inr ys"
proof (induction xs arbitrary: acc)
  case Nil
  then show ?case by simp
next
  case (Cons x xs)
  then obtain y where "f x = Inr y" by auto
  with Cons show ?case by simp
qed

lemma or_none_not_empty: "or_none x \<noteq> Some []"
  by (simp add: or_none_def split: option.splits)

lemma or_none_findtext:
  "or_none (findtext e t) =
     (case find_elem e t of
        None \<Rightarrow> None
      | Some c \<Rightarrow> (case elem_text c of None \<Rightarrow> None | Some s \<Rightarrow> if s = [] then None else Some s))"
  by (simp add: or_none_def findtext_def split: option.splits)

lemmas example_xml_defs =
  shares_xml_def nameless_share_xml_def bare_share_xml_def quotaless_share_xml_def
  entries_xml_def cors_xml_def cors_unexposed_xml_def signed_identifiers_xml_def
  cors_textless_xml_def

lemma example_fromstring_shares: "example_fromstring shares_xml = Some shares_doc"
  by (simp add: example_fromstring_def)

lemma example_fromstring_nameless: "example_fromstring nameless_share_xml = Some nameless_share_doc"
  unfolding example_fromstring_def by (simp add: example_xml_defs)

lemma example_fromstring_bare: "example_fromstring bare_share_xml = Some bare_share_doc"
  unfolding example_fromstring_def by (simp add: example_xml_defs)

lemma example_fromstring_quotaless: "example_fromstring quotaless_share_xml = Some quotaless_share_doc"
  unfolding example_fromstring_def by (simp add: example_xml_defs)

lemma example_fromstring_entries: "example_fromstring entries_xml = Some entries_doc"
  unfolding example_fromstring_def by (simp add: example_xml_defs)

lemma example_fromstring_cors: "example_fromstring cors_xml = Some cors_doc"
  unfolding example_fromstring_def by (simp add: example_xml_defs)

lemma example_fromstring_cors_unexposed:
  "example_fromstring cors_unexposed_xml = Some cors_unexposed_doc"
  unfolding example_fromstring_def by (simp add: example_xml_defs)

lemma example_fromstring_cors_textless:
  "example_fromstring cors_textless_xml = Some cors_textless_doc"
  unfolding example_fromstring_def by (simp add: example_xml_defs)

lemma example_fromstring_signed_identifiers:
  "example_fromstring signed_identifiers_xml = Some signed_identifiers_doc"
  unfolding example_fromstring_def by (simp add: example_xml_defs)

lemma example_date_known: "example_date ''Thu, 01 Jan 2015 00:00:00 GMT'' = Some 1420070400"
  by (simp add: example_date_def)

lemma example_int_5: "example_int ''5'' = Some 5"
  by (simp add: example_int_def)

lemma example_int_7: "example_int ''7'' = Some 7"
  by (simp add: example_int_def)

lemma example_int_511: "example_int ''511'' = Some 511"
  by (simp add: example_int_def)

lemmas example_simps =
  example_date_known example_int_5 example_int_7 example_int_511
  find_elem_def findall_def findtext_def find_dot_text_def int_of_def parser_parse_def
  bind_err_Inr bind_err_Inl or_none_def

lemma shares_doc_run:
  "convert_xml_to_shares example_fromstring example_date example_int
     (Some \<lparr>headers = Some [], body = Some shares_xml\<rparr>) =
   Inr (Returned \<lparr>items = [\<lparr>share_name = Some ''docs'', share_metadata = None,
           share_props = \<lparr>last_modified = 1420070400, etag = Some ''0x1'', quota = 5\<rparr>\<rparr>],
         next_marker = None\<rparr>)"
  by (simp add: convert_xml_to_shares_def example_fromstring_shares shares_doc_def
      convert_share_def example_simps)

lemma entries_doc_run:
  "convert_xml_to_directories_and_files example_fromstring example_int
     (Some \<lparr>headers = Some [], body = Some entries_xml\<rparr>) =
   Inr (Returned \<lparr>files = [\<lparr>file_name = Some ''a.txt'', content_length = 5\<rparr>,
                          \<lparr>file_name = Some ''b.txt'', content_length = 511\<rparr>],
         directories = [\<lparr>directory_name = Some ''sub''\<rparr>],
         fd_next_marker = Some ''abc''\<rparr>)"
  by (simp add: convert_xml_to_directories_and_files_def example_fromstring_entries entries_doc_def
      convert_file_def convert_directory_def example_simps)

lemma convert_share_Inr:
  assumes "convert_share parse_date py_int s = Inr sh"
  shows "share_name sh = findtext s ''Name'' \<and>
    share_metadata sh = map_option metadata_of (find_elem s ''Metadata'') \<and>
    (\<exists>p. find_elem s ''Properties'' = Some p \<and>
         parser_parse parse_date (findtext p ''Last-Modified'') = Inr (last_modified (share_props sh)) \<and>
         etag (share_props sh) = findtext p ''Etag'' \<and>
         int_of py_int (findtext p ''Quota'') = Inr (quota (share_props sh)))"
  using assms
  by (auto simp: convert_share_def Let_def bind_err_eq_Inr split: option.splits)

lemma findtext_absent: "find_elem e t = None \<Longrightarrow> findtext e t = None"
  by (simp add: findtext_def)

lemma for_append_fails:
  assumes "x \<in> set xs" and "\<exists>e. f x = Inl e"
  shows "\<exists>e. for_append f acc xs = Inl e"
proof (cases "for_append f acc xs")
  case (Inl e)
  then show ?thesis by blast
next
  case (Inr ys)
  then obtain zs where "list_all2 (\<lambda>x z. f x = Inr z) xs zs"
    by (auto simp: for_append_Inr)
  with assms(1) obtain z where "f x = Inr z"
    by (auto simp: list_all2_conv_all_nth in_set_conv_nth)
  with assms(2) show ?thesis by auto
qed

lemma convert_cors_rule_Inr:
  assumes "convert_cors_rule py_int rule = Inr cr"
  shows "\<exists>e a. find_elem rule ''ExposedHeaders'' = Some e \<and>
               find_elem rule ''AllowedHeaders'' = Some a \<and>
               exposed_headers cr = map_option (split_sep CHR '','') (elem_text e) \<and>
               allowed_headers cr = map_option (split_sep CHR '','') (elem_text a)"
  using assms
  by (auto simp: convert_cors_rule_def bind_err_eq_Inr find_dot_text_def CorsRule_def Let_def
      split: option.splits)

lemma cors_rule_run:
  "convert_cors_rule example_int
     (Element ''CorsRule'' None
             [Element ''AllowedOrigins'' (Some ''a.com,b.com'') [],
              Element ''AllowedMethods'' (Some ''GET,PUT'') [],
              Element ''MaxAgeInSeconds'' (Some ''5'') [],
              Element ''ExposedHeaders'' None [],
              Element ''AllowedHeaders'' (Some ''x-ms-a,x-ms-b'') []]) =
   Inr \<lparr>allowed_origins = [''a.com'', ''b.com''], allowed_methods = [''GET'', ''PUT''],
        max_age_in_seconds = 5, exposed_headers = None,
        allowed_headers = Some [''x-ms-a'', ''x-ms-b'']\<rparr>"
  by (simp add: convert_cors_rule_def find_dot_text_split_def CorsRule_def example_simps)

lemma cors_doc_run:
  "convert_xml_to_service_properties example_fromstring example_int cors_xml =
   Inr \<lparr>sp_logging = None, hour_metrics = None, minute_metrics = None,
        cors = Some [\<lparr>allowed_origins = [''a.com'', ''b.com''], allowed_methods = [''GET'', ''PUT''],
                      max_age_in_seconds = 5, exposed_headers = None,
                      allowed_headers = Some [''x-ms-a'', ''x-ms-b'']\<rparr>],
        target_version = None\<rparr>"
  by (simp add: convert_xml_to_service_properties_def example_fromstring_cors cors_doc_def
      if_present_def ServiceProperties_def cors_rule_run find_elem_def findall_def
      bind_err_Inr)

lemma convert_signed_identifier_Inr:
  assumes "convert_signed_identifier parse_date se = Inr (k, p)"
  shows "\<exists>ie ap. find_elem se ''Id'' = Some ie \<and> k = elem_text ie \<and>
      find_elem se ''AccessPolicy'' = Some ap \<and>
      ap_permission p = findtext ap ''Permission'' \<and>
      (find_elem ap ''Start'' = None \<longrightarrow> ap_start p = None) \<and>
      (\<forall>s. find_elem ap ''Start'' = Some s \<longrightarrow>
           (\<exists>d. parser_parse parse_date (elem_text s) = Inr d \<and> ap_start p = Some d)) \<and>
      (find_elem ap ''Expiry'' = None \<longrightarrow> ap_expiry p = None) \<and>
      (\<forall>x. find_elem ap ''Expiry'' = Some x \<longrightarrow>
           (\<exists>d. parser_parse parse_date (elem_text x) = Inr d \<and> ap_expiry p = Some d))"
  using assms
  by (auto simp: convert_signed_identifier_def bind_err_eq_Inr find_dot_text_def AccessPolicy_def
      Let_def split: option.splits)

lemma convert_signed_identifier_total:
  assumes "find_elem se ''Id'' = Some ie" and "find_elem se ''AccessPolicy'' = Some ap"
    and "\<forall>s. find_elem ap ''Start'' = Some s \<longrightarrow> (\<exists>d. parser_parse parse_date (elem_text s) = Inr d)"
    and "\<forall>x. find_elem ap ''Expiry'' = Some x \<longrightarrow> (\<exists>d. parser_parse parse_date (elem_text x) = Inr d)"
  shows "\<exists>p. convert_signed_identifier parse_date se = Inr (elem_text ie, p)"
  using assms
  by (cases "find_elem ap ''Start''"; cases "find_elem ap ''Expiry''")
    (auto simp: convert_signed_identifier_def bind_err_Inr find_dot_text_def Let_def)

lemma signed_identifiers_loop_append:
  "signed_identifiers_loop parse_date m (xs @ ys) =
   (case signed_identifiers_loop parse_date m xs of
      Inl e \<Rightarrow> Inl e
    | Inr m' \<Rightarrow> signed_identifiers_loop parse_date m' ys)"
  by (induction xs arbitrary: m) (auto split: sum.splits)

lemma signed_identifiers_loop_total:
  "\<forall>se \<in> set xs. \<exists>kp. convert_signed_identifier parse_date se = Inr kp \<Longrightarrow>
   \<exists>m'. signed_identifiers_loop parse_date m xs = Inr m'"
proof (induction xs arbitrary: m)
  case Nil
  then show ?case by simp
next
  case (Cons x xs)
  then obtain k p where "convert_signed_identifier parse_date x = Inr (k, p)" by fastforce
  with Cons show ?case by simp
qed

lemma signed_identifiers_loop_other:
  "signed_identifiers_loop parse_date m xs = Inr m' \<Longrightarrow>
   \<forall>se \<in> set xs. \<forall>p. convert_signed_identifier parse_date se \<noteq> Inr (k, p) \<Longrightarrow>
   m' k = m k"
proof (induction xs arbitrary: m)
  case Nil
  then show ?case by simp
next
  case (Cons x xs)
  from Cons.prems(1) obtain k' p' where
    x: "convert_signed_identifier parse_date x = Inr (k', p')" and
    rest: "signed_identifiers_loop parse_date (m(k' \<mapsto> p')) xs = Inr m'"
    by (auto split: sum.splits)
  from Cons.prems(2) x have "k' \<noteq> k" by auto
  moreover from Cons.prems(2) have "\<forall>se \<in> set xs. \<forall>p. convert_signed_identifier parse_date se \<noteq> Inr (k, p)"
    by simp
  ultimately show ?case using Cons.IH[OF rest] by simp
qed

lemma signed_identifiers_doc_run:
  "convert_xml_to_signed_identifiers example_fromstring example_date signed_identifiers_xml =
   Inr [Some ''policy1'' \<mapsto> \<lparr>ap_start = Some 1420070400, ap_expiry = None, ap_permission = None\<rparr>]"
  by (simp add: convert_xml_to_signed_identifiers_def example_fromstring_signed_identifiers
      signed_identifiers_doc_def convert_signed_identifier_def AccessPolicy_def example_simps)

lemma convert_cors_rule_total:
  assumes "find_elem rule ''AllowedOrigins'' = Some eo" and "elem_text eo = Some os"
    and "find_elem rule ''AllowedMethods'' = Some em" and "elem_text em = Some ms"
    and "find_elem rule ''MaxAgeInSeconds'' = Some ma" and "int_of py_int (elem_text ma) = Inr n"
    and "find_elem rule ''ExposedHeaders'' = Some e"
    and "find_elem rule ''AllowedHeaders'' = Some a"
  shows "convert_cors_rule py_int rule =
    Inr \<lparr>allowed_origins = split_sep CHR '','' os, allowed_methods = split_sep CHR '','' ms,
         max_age_in_seconds = n,
         exposed_headers = map_option (split_sep CHR '','') (elem_text e),
         allowed_headers = map_option (split_sep CHR '','') (elem_text a)\<rparr>"
  using assms
  by (cases "elem_text e"; cases "elem_text a")
    (simp_all add: convert_cors_rule_def find_dot_text_split_def find_dot_text_def bind_err_Inr
      CorsRule_def)

lemma cors_textless_doc_run:
  "convert_xml_to_service_properties example_fromstring example_int cors_textless_xml =
   Inr \<lparr>sp_logging = None, hour_metrics = None, minute_metrics = None,
        cors = Some [\<lparr>allowed_origins = [''a.com'', ''b.com''], allowed_methods = [''GET'', ''PUT''],
                      max_age_in_seconds = 5, exposed_headers = None, allowed_headers = None\<rparr>],
        target_version = None\<rparr>"
  by (simp add: convert_xml_to_service_properties_def example_fromstring_cors_textless
      cors_textless_doc_def if_present_def ServiceProperties_def convert_cors_rule_def
      find_dot_text_split_def CorsRule_def example_simps)

section \<open>Properties of the header property extractor\<close>

text \<open>
  Claim C1, as amended.  A header whose name starts with \<open>x-ms-meta-\<close> is stored
  in the metadata under its full name, prefix included, with the header value
  as the value: whenever \<open>_parse_properties\<close> returns, the metadata holds, under
  the name of such a header, the value of its last occurrence.  In particular
  a response whose only header is \<open>x-ms-meta-foo: bar\<close> yields the metadata
  \<open>{"x-ms-meta-foo": "bar"}\<close>.
\<close>

theorem metadata_key_keeps_prefix:
  "(headers r = Some (pre @ (key, v) # post) \<and> startswith key ''x-ms-meta-'' \<and>
    key \<notin> fst ` set post \<and>
    parse_properties properties_class parse_date py_int (Some r) = Inr (props, metadata)
    \<longrightarrow> (\<exists>m. metadata = Some m \<and> m key = Some v)) \<and>
   parse_properties properties_class parse_date py_int
     (Some \<lparr>headers = Some [(''x-ms-meta-foo'', Some ''bar'')], body = b\<rparr>) =
   Inr (Some properties_class, Some [''x-ms-meta-foo'' \<mapsto> Some ''bar''])"
proof (intro conjI impI)
  assume a: "headers r = Some (pre @ (key, v) # post) \<and> startswith key ''x-ms-meta-'' \<and>
    key \<notin> fst ` set post \<and>
    parse_properties properties_class parse_date py_int (Some r) = Inr (props, metadata)"
  then obtain p m where
    run: "parse_headers parse_date py_int (properties_class, Map.empty) (pre @ (key, v) # post) = Inr (p, m)"
    and res: "metadata = Some m"
    by (auto simp: parse_properties_def headers_guard_def split: sum.splits)
  from parse_headers_last_meta[OF run] a have "m key = Some v" by blast
  with res show "\<exists>m. metadata = Some m \<and> m key = Some v" by blast
next
  have "startswith ''x-ms-meta-foo'' ''x-ms-meta-''" by (simp add: startswith_def)
  then show "parse_properties properties_class parse_date py_int
     (Some \<lparr>headers = Some [(''x-ms-meta-foo'', Some ''bar'')], body = b\<rparr>) =
   Inr (Some properties_class, Some [''x-ms-meta-foo'' \<mapsto> Some ''bar''])"
    by (simp add: parse_properties_def headers_guard_def parse_header_meta)
qed

theorem metadata_key_keeps_prefix_witness:
  "headers \<lparr>headers = Some ([(''etag'', Some ''0x1'')] @ (''x-ms-meta-foo'', Some ''bar'') # []), body = None\<rparr>
     = Some ([(''etag'', Some ''0x1'')] @ (''x-ms-meta-foo'', Some ''bar'') # []) \<and>
   startswith ''x-ms-meta-foo'' ''x-ms-meta-'' \<and>
   ''x-ms-meta-foo'' \<notin> fst ` set ([] :: (string \<times> string option) list) \<and>
   parse_properties example_properties example_date example_int
     (Some \<lparr>headers = Some ([(''etag'', Some ''0x1'')] @ (''x-ms-meta-foo'', Some ''bar'') # []), body = None\<rparr>)
     = Inr (Some (example_properties\<lparr>attrs := [''etag'' \<mapsto> PStr ''0x1'']\<rparr>),
            Some [''x-ms-meta-foo'' \<mapsto> Some ''bar'']) \<and>
   (\<exists>m. Some [''x-ms-meta-foo'' \<mapsto> Some ''bar''] = Some m \<and> m ''x-ms-meta-foo'' = Some (Some ''bar''))"
proof -
  have s: "startswith ''x-ms-meta-foo'' ''x-ms-meta-''" by (simp add: startswith_def)
  have e: "GET_PROPERTIES_ATTRIBUTE_MAP ''etag'' = Some (None, ''etag'', StrOrNone)"
    by (simp add: GET_PROPERTIES_ATTRIBUTE_MAP_def GET_PROPERTIES_ATTRIBUTE_TABLE_def)
  have run: "parse_properties example_properties example_date example_int
     (Some \<lparr>headers = Some ([(''etag'', Some ''0x1'')] @ (''x-ms-meta-foo'', Some ''bar'') # []), body = None\<rparr>)
     = Inr (Some (example_properties\<lparr>attrs := [''etag'' \<mapsto> PStr ''0x1'']\<rparr>),
            Some [''x-ms-meta-foo'' \<mapsto> Some ''bar''])"
  proof -
    have step: "parse_header example_date example_int (example_properties, Map.empty) (''etag'', Some ''0x1'')
      = Inr (example_properties\<lparr>attrs := [''etag'' \<mapsto> PStr ''0x1'']\<rparr>, Map.empty)"
      by (simp add: parse_header_def e apply_conv_def str_or_none_def example_properties_def)
    show ?thesis
      by (simp add: parse_properties_def headers_guard_def parse_header_meta[OF s] step)
  qed
  from metadata_key_keeps_prefix
    [of "\<lparr>headers = Some ([(''etag'', Some ''0x1'')] @ (''x-ms-meta-foo'', Some ''bar'') # []), body = None\<rparr>"
        "[(''etag'', Some ''0x1'')]" "''x-ms-meta-foo''" "Some ''bar''" "[]"
        example_properties example_date example_int
        "Some (example_properties\<lparr>attrs := [''etag'' \<mapsto> PStr ''0x1'']\<rparr>)"
        "Some [''x-ms-meta-foo'' \<mapsto> Some ''bar'']"]
    s run
  show ?thesis by simp
qed

text \<open>
  The claim as first stated (the key is the header name with the prefix
  stripped) fails on that response: the metadata is not \<open>{"foo": "bar"}\<close>.
\<close>

theorem metadata_key_stripped_counterexample:
  "parse_properties example_properties example_date example_int
     (Some \<lparr>headers = Some [(''x-ms-meta-foo'', Some ''bar'')], body = None\<rparr>)
     = Inr (Some example_properties, Some [''x-ms-meta-foo'' \<mapsto> Some ''bar'']) \<and>
   parse_properties example_properties example_date example_int
     (Some \<lparr>headers = Some [(''x-ms-meta-foo'', Some ''bar'')], body = None\<rparr>)
     \<noteq> Inr (Some example_properties, Some [''foo'' \<mapsto> Some ''bar''])"
proof -
  have s: "startswith ''x-ms-meta-foo'' ''x-ms-meta-''" by (simp add: startswith_def)
  have run: "parse_properties example_properties example_date example_int
     (Some \<lparr>headers = Some [(''x-ms-meta-foo'', Some ''bar'')], body = None\<rparr>)
     = Inr (Some example_properties, Some [''x-ms-meta-foo'' \<mapsto> Some ''bar''])"
    by (simp add: parse_properties_def headers_guard_def parse_header_meta[OF s])
  have "[''x-ms-meta-foo'' \<mapsto> Some ''bar''] ''foo'' \<noteq> [''foo'' \<mapsto> Some ''bar''] ''foo''"
    by simp
  then have "[''x-ms-meta-foo'' \<mapsto> Some ''bar''] \<noteq> [''foo'' \<mapsto> Some ''bar'']"
    by metis
  with run show ?thesis by simp
qed

text \<open>
  Claim C3.  The guard \<open>response is None and response.headers is not None\<close>
  never evaluates to true, so \<open>_parse_properties\<close> never returns the pair
  \<open>(None, None)\<close>; called with the response \<open>None\<close> it fails with the
  attribute error that the guard raises.
\<close>

theorem guard_never_true:
  "headers_guard response \<noteq> Inr True \<and>
   parse_properties properties_class parse_date py_int response \<noteq> Inr (None, None) \<and>
   parse_properties properties_class parse_date py_int None = Inl AttributeError"
  by (auto simp: headers_guard_def parse_properties_def split: option.splits sum.splits)

text \<open>
  Claim C10.  The table lookup and the prefix test compare the header name as
  it is: a header whose name is none of the table's keys and does not start
  with \<open>x-ms-meta-\<close> (so \<open>Last-Modified\<close> or \<open>ETag\<close> in mixed case) leaves the
  property object and the metadata as they were, and \<open>_parse_properties\<close>
  answers as if the header were not in the response.
\<close>

theorem unmatched_header_ignored:
  assumes "key \<notin> set (map fst GET_PROPERTIES_ATTRIBUTE_TABLE)"
    and "\<not> startswith key ''x-ms-meta-''"
  shows "parse_header parse_date py_int (props, metadata) (key, v) = Inr (props, metadata) \<and>
    parse_properties properties_class parse_date py_int
      (Some (r\<lparr>headers := Some (pre @ (key, v) # post)\<rparr>)) =
    parse_properties properties_class parse_date py_int
      (Some (r\<lparr>headers := Some (pre @ post)\<rparr>))"
proof -
  from assms(1) have none: "GET_PROPERTIES_ATTRIBUTE_MAP key = None"
    by (simp add: GET_PROPERTIES_ATTRIBUTE_MAP_def map_of_eq_None_iff)
  have step: "parse_header parse_date py_int pm (key, v) = Inr pm" for pm
    using none assms(2) by (rule parse_header_ignored)
  have loop: "parse_headers parse_date py_int pm (pre @ (key, v) # post) =
      parse_headers parse_date py_int pm (pre @ post)" for pm
    by (simp add: parse_headers_append step split: sum.splits)
  show ?thesis
    by (simp add: step parse_properties_def headers_guard_def loop)
qed

theorem unmatched_header_ignored_witness:
  "''Last-Modified'' \<notin> set (map fst GET_PROPERTIES_ATTRIBUTE_TABLE) \<and>
   \<not> startswith ''Last-Modified'' ''x-ms-meta-'' \<and>
   parse_header example_date example_int (example_properties, Map.empty)
     (''Last-Modified'', Some ''Thu, 01 Jan 2015 00:00:00 GMT'') = Inr (example_properties, Map.empty) \<and>
   parse_properties example_properties example_date example_int
     (Some \<lparr>headers = Some [(''Last-Modified'', Some ''Thu, 01 Jan 2015 00:00:00 GMT'')], body = None\<rparr>) =
   Inr (Some example_properties, Some Map.empty)"
proof -
  have k: "''Last-Modified'' \<notin> set (map fst GET_PROPERTIES_ATTRIBUTE_TABLE)"
    by (simp add: GET_PROPERTIES_ATTRIBUTE_TABLE_def)
  have s: "\<not> startswith ''Last-Modified'' ''x-ms-meta-''"
    by (simp add: startswith_def)
  have e: "parse_properties example_properties example_date example_int
     (Some \<lparr>headers = Some [], body = None\<rparr>) = Inr (Some example_properties, Some Map.empty)"
    by (simp add: parse_properties_def headers_guard_def)
  from unmatched_header_ignored[OF k s, where parse_date = example_date and py_int = example_int
      and props = example_properties and metadata = Map.empty
      and v = "Some ''Thu, 01 Jan 2015 00:00:00 GMT''" and properties_class = example_properties
      and r = "\<lparr>headers = None, body = None\<rparr>" and pre = "[]" and post = "[]"] k s e
  show ?thesis by simp
qed

section \<open>Properties of the listing parsers\<close>

text \<open>
  Claim C2.  Each of the four listing parsers, called with the response
  \<open>None\<close> or with a response whose body is \<open>None\<close>, returns that very
  \<open>response\<close> argument: no typed result and no error.
\<close>

theorem absent_body_returns_response:
  assumes "response = None \<or> (\<exists>r. response = Some r \<and> body r = None)"
  shows "convert_xml_to_shares fromstring parse_date py_int response = Inr (ReturnedResponse response) \<and>
    convert_xml_to_directories_and_files fromstring py_int response = Inr (ReturnedResponse response) \<and>
    convert_xml_to_ranges fromstring py_int response = Inr (ReturnedResponse response) \<and>
    convert_xml_to_share_stats fromstring py_int response = Inr (ReturnedResponse response)"
  using assms
  by (auto simp: convert_xml_to_shares_def convert_xml_to_directories_and_files_def
      convert_xml_to_ranges_def convert_xml_to_share_stats_def)

theorem absent_body_returns_response_witness:
  "(Some \<lparr>headers = Some [], body = None\<rparr> = None \<or>
     (\<exists>r. Some \<lparr>headers = Some [], body = None\<rparr> = Some r \<and> body r = None)) \<and>
   convert_xml_to_shares (\<lambda>b. None) example_date example_int (Some \<lparr>headers = Some [], body = None\<rparr>)
     = Inr (ReturnedResponse (Some \<lparr>headers = Some [], body = None\<rparr>)) \<and>
   convert_xml_to_directories_and_files (\<lambda>b. None) example_int (Some \<lparr>headers = Some [], body = None\<rparr>)
     = Inr (ReturnedResponse (Some \<lparr>headers = Some [], body = None\<rparr>)) \<and>
   convert_xml_to_ranges (\<lambda>b. None) example_int (Some \<lparr>headers = Some [], body = None\<rparr>)
     = Inr (ReturnedResponse (Some \<lparr>headers = Some [], body = None\<rparr>)) \<and>
   convert_xml_to_share_stats (\<lambda>b. None) example_int (Some \<lparr>headers = Some [], body = None\<rparr>)
     = Inr (ReturnedResponse (Some \<lparr>headers = Some [], body = None\<rparr>))"
proof -
  have h: "Some \<lparr>headers = Some [], body = None\<rparr> = None \<or>
     (\<exists>r. Some \<lparr>headers = Some [], body = None\<rparr> = Some r \<and> body r = None)"
    by simp
  from absent_body_returns_response[OF h, of "\<lambda>b. None" example_date example_int] h
  show ?thesis by blast
qed

text \<open>
  Claim C5.  When the shares parser or the directories-and-files parser builds
  a typed collection, its next marker is \<open>None\<close> if the \<open>NextMarker\<close> element is
  absent or has no text or the empty text, and is the element's text
  otherwise; it is never the empty string.
\<close>

theorem next_marker_none_or_nonempty:
  assumes "body r = Some b" and "fromstring b = Some list_element"
  shows
    "(convert_xml_to_shares fromstring parse_date py_int (Some r) = Inr (Returned shares) \<longrightarrow>
        next_marker shares \<noteq> Some [] \<and>
        next_marker shares =
          (case find_elem list_element ''NextMarker'' of
             None \<Rightarrow> None
           | Some c \<Rightarrow> (case elem_text c of None \<Rightarrow> None | Some s \<Rightarrow> if s = [] then None else Some s))) \<and>
     (convert_xml_to_directories_and_files fromstring py_int (Some r) = Inr (Returned entries) \<longrightarrow>
        fd_next_marker entries \<noteq> Some [] \<and>
        fd_next_marker entries =
          (case find_elem list_element ''NextMarker'' of
             None \<Rightarrow> None
           | Some c \<Rightarrow> (case elem_text c of None \<Rightarrow> None | Some s \<Rightarrow> if s = [] then None else Some s)))"
proof (intro conjI impI)
  assume "convert_xml_to_shares fromstring parse_date py_int (Some r) = Inr (Returned shares)"
  with assms have m: "next_marker shares = or_none (findtext list_element ''NextMarker'')"
    by (auto simp: convert_xml_to_shares_def bind_err_eq_Inr split: option.splits)
  from m show "next_marker shares \<noteq> Some []" by (simp add: or_none_not_empty)
  from m show "next_marker shares =
          (case find_elem list_element ''NextMarker'' of
             None \<Rightarrow> None
           | Some c \<Rightarrow> (case elem_text c of None \<Rightarrow> None | Some s \<Rightarrow> if s = [] then None else Some s))"
    by (simp add: or_none_findtext)
next
  assume "convert_xml_to_directories_and_files fromstring py_int (Some r) = Inr (Returned entries)"
  with assms have m: "fd_next_marker entries = or_none (findtext list_element ''NextMarker'')"
    by (auto simp: convert_xml_to_directories_and_files_def bind_err_eq_Inr split: option.splits)
  from m show "fd_next_marker entries \<noteq> Some []" by (simp add: or_none_not_empty)
  from m show "fd_next_marker entries =
          (case find_elem list_element ''NextMarker'' of
             None \<Rightarrow> None
           | Some c \<Rightarrow> (case elem_text c of None \<Rightarrow> None | Some s \<Rightarrow> if s = [] then None else Some s))"
    by (simp add: or_none_findtext)
qed

theorem next_marker_none_or_nonempty_witness:
  "body \<lparr>headers = Some [], body = Some shares_xml\<rparr> = Some shares_xml \<and>
   example_fromstring shares_xml = Some shares_doc \<and>
   convert_xml_to_shares example_fromstring example_date example_int
     (Some \<lparr>headers = Some [], body = Some shares_xml\<rparr>) =
   Inr (Returned \<lparr>items = [\<lparr>share_name = Some ''docs'', share_metadata = None,
           share_props = \<lparr>last_modified = 1420070400, etag = Some ''0x1'', quota = 5\<rparr>\<rparr>],
         next_marker = None\<rparr>) \<and>
   body \<lparr>headers = Some [], body = Some entries_xml\<rparr> = Some entries_xml \<and>
   example_fromstring entries_xml = Some entries_doc \<and>
   convert_xml_to_directories_and_files example_fromstring example_int
     (Some \<lparr>headers = Some [], body = Some entries_xml\<rparr>) =
   Inr (Returned \<lparr>files = [\<lparr>file_name = Some ''a.txt'', content_length = 5\<rparr>,
                          \<lparr>file_name = Some ''b.txt'', content_length = 511\<rparr>],
         directories = [\<lparr>directory_name = Some ''sub''\<rparr>],
         fd_next_marker = Some ''abc''\<rparr>) \<and>
   find_elem shares_doc ''NextMarker'' = Some (Element ''NextMarker'' None []) \<and>
   find_elem entries_doc ''NextMarker'' = Some (Element ''NextMarker'' (Some ''abc'') [])"
proof -
  have b1: "body \<lparr>headers = Some [], body = Some shares_xml\<rparr> = Some shares_xml" by simp
  have b2: "body \<lparr>headers = Some [], body = Some entries_xml\<rparr> = Some entries_xml" by simp
  have n1: "find_elem shares_doc ''NextMarker'' = Some (Element ''NextMarker'' None [])"
    by (simp add: find_elem_def shares_doc_def)
  have n2: "find_elem entries_doc ''NextMarker'' = Some (Element ''NextMarker'' (Some ''abc'') [])"
    by (simp add: find_elem_def entries_doc_def)
  note t1 = next_marker_none_or_nonempty[where fromstring = example_fromstring
      and parse_date = example_date and py_int = example_int, OF b1 example_fromstring_shares]
  note t2 = next_marker_none_or_nonempty[where fromstring = example_fromstring
      and parse_date = example_date and py_int = example_int, OF b2 example_fromstring_entries]
  from t1 t2 shares_doc_run entries_doc_run example_fromstring_shares example_fromstring_entries n1 n2
  show ?thesis by simp
qed

text \<open>
  Claim C8.  For a directories-and-files listing with a present body, the
  files of the result are the \<open>File\<close> children of \<open>Entries\<close> and its directories
  the \<open>Directory\<close> children, each sequence in the document order of its kind;
  the parser returns them whenever every \<open>File\<close> child has a \<open>Properties\<close>
  block with a numeric \<open>Content-Length\<close>.  For the document order \<open>File\<close>,
  \<open>Directory\<close>, \<open>File\<close> there are two files and one directory.
\<close>

theorem files_and_directories_in_document_order:
  assumes "body r = Some b" and "fromstring b = Some list_element"
    and "find_elem list_element ''Entries'' = Some entries_element"
  shows
    "(convert_xml_to_directories_and_files fromstring py_int (Some r) = Inr (Returned entries) \<longrightarrow>
        list_all2
          (\<lambda>e f. file_name f = findtext e ''Name'' \<and>
                 (\<exists>p. find_elem e ''Properties'' = Some p \<and>
                      int_of py_int (findtext p ''Content-Length'') = Inr (content_length f)))
          (filter (\<lambda>c. elem_tag c = ''File'') (elem_children entries_element)) (files entries) \<and>
        list_all2 (\<lambda>e d. directory_name d = findtext e ''Name'')
          (filter (\<lambda>c. elem_tag c = ''Directory'') (elem_children entries_element))
          (directories entries) \<and>
        length (files entries) =
          length (filter (\<lambda>c. elem_tag c = ''File'') (elem_children entries_element)) \<and>
        length (directories entries) =
          length (filter (\<lambda>c. elem_tag c = ''Directory'') (elem_children entries_element))) \<and>
     ((\<forall>e \<in> set (filter (\<lambda>c. elem_tag c = ''File'') (elem_children entries_element)).
          \<exists>p n. find_elem e ''Properties'' = Some p \<and>
                int_of py_int (findtext p ''Content-Length'') = Inr n) \<longrightarrow>
      (\<exists>res. convert_xml_to_directories_and_files fromstring py_int (Some r) = Inr (Returned res)))"
proof (intro conjI impI)
  assume run: "convert_xml_to_directories_and_files fromstring py_int (Some r) = Inr (Returned entries)"
  from run assms obtain fs ds where
    fs: "list_all2 (\<lambda>e f. convert_file py_int e = Inr f) (findall entries_element ''File'') fs" and
    ds: "list_all2 (\<lambda>e d. convert_directory e = Inr d) (findall entries_element ''Directory'') ds" and
    res: "files entries = fs" "directories entries = ds"
    by (auto simp: convert_xml_to_directories_and_files_def bind_err_eq_Inr for_append_Inr)
  have f_rel: "convert_file py_int e = Inr f \<Longrightarrow>
      file_name f = findtext e ''Name'' \<and>
      (\<exists>p. find_elem e ''Properties'' = Some p \<and>
           int_of py_int (findtext p ''Content-Length'') = Inr (content_length f))" for e f
    by (auto simp: convert_file_def bind_err_eq_Inr split: option.splits)
  have d_rel: "convert_directory e = Inr d \<Longrightarrow> directory_name d = findtext e ''Name''" for e d
    by (auto simp: convert_directory_def)
  from fs res show "list_all2
          (\<lambda>e f. file_name f = findtext e ''Name'' \<and>
                 (\<exists>p. find_elem e ''Properties'' = Some p \<and>
                      int_of py_int (findtext p ''Content-Length'') = Inr (content_length f)))
          (filter (\<lambda>c. elem_tag c = ''File'') (elem_children entries_element)) (files entries)"
    unfolding findall_def by (auto elim!: list_all2_mono dest: f_rel)
  from ds res show "list_all2 (\<lambda>e d. directory_name d = findtext e ''Name'')
          (filter (\<lambda>c. elem_tag c = ''Directory'') (elem_children entries_element))
          (directories entries)"
    unfolding findall_def by (auto elim!: list_all2_mono dest: d_rel)
  from fs res show "length (files entries) =
          length (filter (\<lambda>c. elem_tag c = ''File'') (elem_children entries_element))"
    unfolding findall_def by (auto dest: list_all2_lengthD)
  from ds res show "length (directories entries) =
          length (filter (\<lambda>c. elem_tag c = ''Directory'') (elem_children entries_element))"
    unfolding findall_def by (auto dest: list_all2_lengthD)
next
  assume ok: "\<forall>e \<in> set (filter (\<lambda>c. elem_tag c = ''File'') (elem_children entries_element)).
          \<exists>p n. find_elem e ''Properties'' = Some p \<and>
                int_of py_int (findtext p ''Content-Length'') = Inr n"
  have "\<forall>e \<in> set (findall entries_element ''File''). \<exists>f. convert_file py_int e = Inr f"
  proof
    fix e assume "e \<in> set (findall entries_element ''File'')"
    with ok obtain p n where "find_elem e ''Properties'' = Some p"
      "int_of py_int (findtext p ''Content-Length'') = Inr n"
      unfolding findall_def by blast
    then show "\<exists>f. convert_file py_int e = Inr f"
      by (simp add: convert_file_def bind_err_Inr)
  qed
  then obtain fs where "for_append (convert_file py_int) [] (findall entries_element ''File'') = Inr fs"
    using for_append_total by blast
  moreover obtain ds where "for_append convert_directory [] (findall entries_element ''Directory'') = Inr ds"
    using for_append_total[of _ convert_directory] by (fastforce simp: convert_directory_def)
  ultimately show "\<exists>res. convert_xml_to_directories_and_files fromstring py_int (Some r) = Inr (Returned res)"
    using assms by (simp add: convert_xml_to_directories_and_files_def bind_err_Inr)
qed

theorem files_and_directories_in_document_order_witness:
  "body \<lparr>headers = Some [], body = Some entries_xml\<rparr> = Some entries_xml \<and>
   example_fromstring entries_xml = Some entries_doc \<and>
   find_elem entries_doc ''Entries'' = Some (hd (elem_children entries_doc)) \<and>
   map elem_tag (elem_children (hd (elem_children entries_doc))) = [''File'', ''Directory'', ''File''] \<and>
   convert_xml_to_directories_and_files example_fromstring example_int
     (Some \<lparr>headers = Some [], body = Some entries_xml\<rparr>) =
   Inr (Returned \<lparr>files = [\<lparr>file_name = Some ''a.txt'', content_length = 5\<rparr>,
                          \<lparr>file_name = Some ''b.txt'', content_length = 511\<rparr>],
         directories = [\<lparr>directory_name = Some ''sub''\<rparr>],
         fd_next_marker = Some ''abc''\<rparr>) \<and>
   length (filter (\<lambda>c. elem_tag c = ''File'') (elem_children (hd (elem_children entries_doc)))) = 2 \<and>
   length (filter (\<lambda>c. elem_tag c = ''Directory'') (elem_children (hd (elem_children entries_doc)))) = 1"
proof -
  have b: "body \<lparr>headers = Some [], body = Some entries_xml\<rparr> = Some entries_xml" by simp
  have e: "find_elem entries_doc ''Entries'' = Some (hd (elem_children entries_doc))"
    by (simp add: find_elem_def entries_doc_def)
  have t: "map elem_tag (elem_children (hd (elem_children entries_doc))) = [''File'', ''Directory'', ''File'']"
    by (simp add: entries_doc_def)
  note inst = files_and_directories_in_document_order[where fromstring = example_fromstring
      and py_int = example_int, OF b example_fromstring_entries e]
  from inst entries_doc_run have
    "length (filter (\<lambda>c. elem_tag c = ''File'') (elem_children (hd (elem_children entries_doc)))) = 2"
    "length (filter (\<lambda>c. elem_tag c = ''Directory'') (elem_children (hd (elem_children entries_doc)))) = 1"
    by fastforce+
  with b e t example_fromstring_entries entries_doc_run show ?thesis by simp
qed

text \<open>
  Claim C6, as amended.  In a shares listing with a present body, a \<open>Share\<close>
  element that lacks its \<open>Properties\<close> block, or \<open>Last-Modified\<close> or \<open>Quota\<close>
  inside it, makes the parser fail.  A missing \<open>Name\<close>, or a missing \<open>Etag\<close>
  inside \<open>Properties\<close>, does not: whenever the parser returns, each share's
  name and etag are \<open>None\<close> where the element is absent.
\<close>

theorem share_required_children:
  assumes "body r = Some b" and "fromstring b = Some list_element"
    and "find_elem list_element ''Shares'' = Some shares_element"
  shows
    "((\<exists>s \<in> set (findall shares_element ''Share'').
         find_elem s ''Properties'' = None \<or>
         (\<exists>p. find_elem s ''Properties'' = Some p \<and>
              (find_elem p ''Last-Modified'' = None \<or> find_elem p ''Quota'' = None))) \<longrightarrow>
      (\<exists>e. convert_xml_to_shares fromstring parse_date py_int (Some r) = Inl e)) \<and>
     (convert_xml_to_shares fromstring parse_date py_int (Some r) = Inr (Returned shares) \<longrightarrow>
      list_all2
        (\<lambda>s sh. (find_elem s ''Name'' = None \<longrightarrow> share_name sh = None) \<and>
                (\<exists>p. find_elem s ''Properties'' = Some p \<and>
                     (find_elem p ''Etag'' = None \<longrightarrow> etag (share_props sh) = None)))
        (findall shares_element ''Share'') (items shares))"
proof (intro conjI impI)
  assume bad: "\<exists>s \<in> set (findall shares_element ''Share'').
         find_elem s ''Properties'' = None \<or>
         (\<exists>p. find_elem s ''Properties'' = Some p \<and>
              (find_elem p ''Last-Modified'' = None \<or> find_elem p ''Quota'' = None))"
  then obtain s where s: "s \<in> set (findall shares_element ''Share'')" and
    lack: "find_elem s ''Properties'' = None \<or>
         (\<exists>p. find_elem s ''Properties'' = Some p \<and>
              (find_elem p ''Last-Modified'' = None \<or> find_elem p ''Quota'' = None))"
    by blast
  have fails: "\<exists>e. convert_share parse_date py_int s = Inl e"
  proof (cases "convert_share parse_date py_int s")
    case (Inl e)
    then show ?thesis by blast
  next
    case (Inr sh)
    from convert_share_Inr[OF Inr] obtain p where
      "find_elem s ''Properties'' = Some p"
      "parser_parse parse_date (findtext p ''Last-Modified'') = Inr (last_modified (share_props sh))"
      "int_of py_int (findtext p ''Quota'') = Inr (quota (share_props sh))"
      by blast
    with lack show ?thesis
      by (auto simp: findtext_absent parser_parse_def int_of_def)
  qed
  from for_append_fails[where f = "convert_share parse_date py_int" and acc = "[]", OF s fails]
  obtain e where
    "for_append (convert_share parse_date py_int) [] (findall shares_element ''Share'') = Inl e"
    by blast
  with assms show "\<exists>e. convert_xml_to_shares fromstring parse_date py_int (Some r) = Inl e"
    by (simp add: convert_xml_to_shares_def bind_err_Inl)
next
  assume "convert_xml_to_shares fromstring parse_date py_int (Some r) = Inr (Returned shares)"
  with assms have
    "list_all2 (\<lambda>x z. convert_share parse_date py_int x = Inr z) (findall shares_element ''Share'') (items shares)"
    by (auto simp: convert_xml_to_shares_def bind_err_eq_Inr for_append_Inr)
  then show "list_all2
        (\<lambda>s sh. (find_elem s ''Name'' = None \<longrightarrow> share_name sh = None) \<and>
                (\<exists>p. find_elem s ''Properties'' = Some p \<and>
                     (find_elem p ''Etag'' = None \<longrightarrow> etag (share_props sh) = None)))
        (findall shares_element ''Share'') (items shares)"
  proof (rule list_all2_mono)
    fix s sh assume "convert_share parse_date py_int s = Inr sh"
    from convert_share_Inr[OF this]
    show "(find_elem s ''Name'' = None \<longrightarrow> share_name sh = None) \<and>
                (\<exists>p. find_elem s ''Properties'' = Some p \<and>
                     (find_elem p ''Etag'' = None \<longrightarrow> etag (share_props sh) = None))"
      by (auto simp: findtext_absent)
  qed
qed

theorem share_required_children_witness:
  "body \<lparr>headers = Some [], body = Some bare_share_xml\<rparr> = Some bare_share_xml \<and>
   example_fromstring bare_share_xml = Some bare_share_doc \<and>
   find_elem bare_share_doc ''Shares'' = Some (hd (elem_children bare_share_doc)) \<and>
   convert_xml_to_shares example_fromstring example_date example_int
     (Some \<lparr>headers = Some [], body = Some bare_share_xml\<rparr>) =
   Inr (Returned \<lparr>items = [\<lparr>share_name = None, share_metadata = None,
           share_props = \<lparr>last_modified = 1420070400, etag = None, quota = 7\<rparr>\<rparr>],
         next_marker = None\<rparr>) \<and>
   body \<lparr>headers = Some [], body = Some quotaless_share_xml\<rparr> = Some quotaless_share_xml \<and>
   example_fromstring quotaless_share_xml = Some quotaless_share_doc \<and>
   find_elem quotaless_share_doc ''Shares'' = Some (hd (elem_children quotaless_share_doc)) \<and>
   (\<exists>s \<in> set (findall (hd (elem_children quotaless_share_doc)) ''Share'').
      \<exists>p. find_elem s ''Properties'' = Some p \<and> find_elem p ''Quota'' = None) \<and>
   (\<exists>e. convert_xml_to_shares example_fromstring example_date example_int
     (Some \<lparr>headers = Some [], body = Some quotaless_share_xml\<rparr>) = Inl e)"
proof -
  have b1: "body \<lparr>headers = Some [], body = Some bare_share_xml\<rparr> = Some bare_share_xml" by simp
  have s1: "find_elem bare_share_doc ''Shares'' = Some (hd (elem_children bare_share_doc))"
    by (simp add: find_elem_def bare_share_doc_def)
  have run1: "convert_xml_to_shares example_fromstring example_date example_int
     (Some \<lparr>headers = Some [], body = Some bare_share_xml\<rparr>) =
   Inr (Returned \<lparr>items = [\<lparr>share_name = None, share_metadata = None,
           share_props = \<lparr>last_modified = 1420070400, etag = None, quota = 7\<rparr>\<rparr>],
         next_marker = None\<rparr>)"
    by (simp add: convert_xml_to_shares_def example_fromstring_bare bare_share_doc_def
        convert_share_def example_simps)
  have b2: "body \<lparr>headers = Some [], body = Some quotaless_share_xml\<rparr> = Some quotaless_share_xml"
    by simp
  have s2: "find_elem quotaless_share_doc ''Shares'' = Some (hd (elem_children quotaless_share_doc))"
    by (simp add: find_elem_def quotaless_share_doc_def)
  have lack: "\<exists>s \<in> set (findall (hd (elem_children quotaless_share_doc)) ''Share'').
      \<exists>p. find_elem s ''Properties'' = Some p \<and> find_elem p ''Quota'' = None"
    by (simp add: findall_def find_elem_def quotaless_share_doc_def)
  note i1 = share_required_children[where fromstring = example_fromstring
      and parse_date = example_date and py_int = example_int, OF b1 example_fromstring_bare s1]
  note i2 = share_required_children[where fromstring = example_fromstring
      and parse_date = example_date and py_int = example_int, OF b2 example_fromstring_quotaless s2]
  from i2 lack have fail: "\<exists>e. convert_xml_to_shares example_fromstring example_date example_int
     (Some \<lparr>headers = Some [], body = Some quotaless_share_xml\<rparr>) = Inl e"
    by blast
  note names = i1[THEN conjunct2, THEN mp, OF run1]
  show ?thesis
    by (intro conjI) (fact b1 example_fromstring_bare s1 run1 b2 example_fromstring_quotaless s2 lack fail)+
qed

text \<open>
  The claim as first stated fails for \<open>Name\<close>: a share without a \<open>Name\<close> element
  is returned with the name \<open>None\<close>.
\<close>

theorem share_without_name_counterexample:
  "convert_xml_to_shares example_fromstring example_date example_int
     (Some \<lparr>headers = Some [], body = Some nameless_share_xml\<rparr>) =
   Inr (Returned \<lparr>items = [\<lparr>share_name = None, share_metadata = None,
           share_props = \<lparr>last_modified = 1420070400, etag = Some ''0x1'', quota = 5\<rparr>\<rparr>],
         next_marker = None\<rparr>)"
  by (simp add: convert_xml_to_shares_def example_fromstring_nameless nameless_share_doc_def
      convert_share_def example_simps)

section \<open>Properties of the service-properties parser\<close>

text \<open>
  Claim C4, as amended.  In every \<open>CorsRule\<close> the elements \<open>ExposedHeaders\<close> and
  \<open>AllowedHeaders\<close> have to be present: a rule lacking either makes
  \<open>_convert_xml_to_service_properties\<close> fail.  What is optional is their text.
  When the other top-level elements convert and every rule has its five
  child elements, with a text in \<open>AllowedOrigins\<close> and in \<open>AllowedMethods\<close> and
  a number in \<open>MaxAgeInSeconds\<close>, the parser returns, whatever the texts of
  \<open>ExposedHeaders\<close> and \<open>AllowedHeaders\<close>; and whenever it returns, each rule's
  field is unset (\<open>None\<close>) where the element has no text, and the comma-split
  text otherwise.
\<close>

theorem cors_header_elements_required:
  assumes "fromstring xml = Some root" and "find_elem root ''Cors'' = Some c"
  shows
    "((\<exists>rule \<in> set (findall c ''CorsRule'').
         find_elem rule ''ExposedHeaders'' = None \<or> find_elem rule ''AllowedHeaders'' = None) \<longrightarrow>
      (\<exists>e. convert_xml_to_service_properties fromstring py_int xml = Inl e)) \<and>
     (convert_xml_to_service_properties fromstring py_int xml = Inr sp \<longrightarrow>
      (\<exists>rules. cors sp = Some rules \<and>
         list_all2
           (\<lambda>rule cr. \<exists>e a. find_elem rule ''ExposedHeaders'' = Some e \<and>
                             find_elem rule ''AllowedHeaders'' = Some a \<and>
                             exposed_headers cr = map_option (split_sep CHR '','') (elem_text e) \<and>
                             allowed_headers cr = map_option (split_sep CHR '','') (elem_text a))
           (findall c ''CorsRule'') rules)) \<and>
     ((\<exists>lg. if_present (find_elem root ''Logging'') (convert_xml_to_logging py_int) = Inr lg) \<and>
      (\<exists>hm. if_present (find_elem root ''HourMetrics'') (convert_xml_to_metrics py_int) = Inr hm) \<and>
      (\<exists>mm. if_present (find_elem root ''MinuteMetrics'') (convert_xml_to_metrics py_int) = Inr mm) \<and>
      (\<forall>rule \<in> set (findall c ''CorsRule'').
         \<exists>eo os em ms ma n e a.
           find_elem rule ''AllowedOrigins'' = Some eo \<and> elem_text eo = Some os \<and>
           find_elem rule ''AllowedMethods'' = Some em \<and> elem_text em = Some ms \<and>
           find_elem rule ''MaxAgeInSeconds'' = Some ma \<and> int_of py_int (elem_text ma) = Inr n \<and>
           find_elem rule ''ExposedHeaders'' = Some e \<and>
           find_elem rule ''AllowedHeaders'' = Some a) \<longrightarrow>
      (\<exists>res rules. convert_xml_to_service_properties fromstring py_int xml = Inr res \<and>
         cors res = Some rules \<and>
         list_all2
           (\<lambda>rule cr. \<exists>e a. find_elem rule ''ExposedHeaders'' = Some e \<and>
                             find_elem rule ''AllowedHeaders'' = Some a \<and>
                             exposed_headers cr = map_option (split_sep CHR '','') (elem_text e) \<and>
                             allowed_headers cr = map_option (split_sep CHR '','') (elem_text a))
           (findall c ''CorsRule'') rules))"
proof -
  have returned: "\<exists>rules. cors sp' = Some rules \<and>
         list_all2 (\<lambda>rule cr. convert_cors_rule py_int rule = Inr cr) (findall c ''CorsRule'') rules"
    if "convert_xml_to_service_properties fromstring py_int xml = Inr sp'" for sp'
    using that assms
    by (auto simp: convert_xml_to_service_properties_def bind_err_eq_Inr if_present_def
        for_append_Inr ServiceProperties_def)
  have described: "\<exists>rules. cors sp' = Some rules \<and>
         list_all2
           (\<lambda>rule cr. \<exists>e a. find_elem rule ''ExposedHeaders'' = Some e \<and>
                             find_elem rule ''AllowedHeaders'' = Some a \<and>
                             exposed_headers cr = map_option (split_sep CHR '','') (elem_text e) \<and>
                             allowed_headers cr = map_option (split_sep CHR '','') (elem_text a))
           (findall c ''CorsRule'') rules"
    if run: "convert_xml_to_service_properties fromstring py_int xml = Inr sp'" for sp'
  proof -
    from returned[OF run] obtain rules where
      c: "cors sp' = Some rules" and
      l: "list_all2 (\<lambda>rule cr. convert_cors_rule py_int rule = Inr cr) (findall c ''CorsRule'') rules"
      by blast
    from l have "list_all2
           (\<lambda>rule cr. \<exists>e a. find_elem rule ''ExposedHeaders'' = Some e \<and>
                             find_elem rule ''AllowedHeaders'' = Some a \<and>
                             exposed_headers cr = map_option (split_sep CHR '','') (elem_text e) \<and>
                             allowed_headers cr = map_option (split_sep CHR '','') (elem_text a))
           (findall c ''CorsRule'') rules"
      by (rule list_all2_mono) (rule convert_cors_rule_Inr)
    with c show ?thesis by blast
  qed
  show ?thesis
  proof (intro conjI impI)
    assume "\<exists>rule \<in> set (findall c ''CorsRule'').
         find_elem rule ''ExposedHeaders'' = None \<or> find_elem rule ''AllowedHeaders'' = None"
    then obtain rule where rule: "rule \<in> set (findall c ''CorsRule'')" and
      lack: "find_elem rule ''ExposedHeaders'' = None \<or> find_elem rule ''AllowedHeaders'' = None"
      by blast
    show "\<exists>e. convert_xml_to_service_properties fromstring py_int xml = Inl e"
    proof (cases "convert_xml_to_service_properties fromstring py_int xml")
      case (Inl e)
      then show ?thesis by blast
    next
      case (Inr sp')
      from returned[OF Inr] obtain rules where
        "list_all2 (\<lambda>rule cr. convert_cors_rule py_int rule = Inr cr) (findall c ''CorsRule'') rules"
        by blast
      with rule obtain cr where "convert_cors_rule py_int rule = Inr cr"
        by (auto simp: list_all2_conv_all_nth in_set_conv_nth)
      from convert_cors_rule_Inr[OF this] lack show ?thesis by auto
    qed
  next
    assume "convert_xml_to_service_properties fromstring py_int xml = Inr sp"
    then show "\<exists>rules. cors sp = Some rules \<and>
         list_all2
           (\<lambda>rule cr. \<exists>e a. find_elem rule ''ExposedHeaders'' = Some e \<and>
                             find_elem rule ''AllowedHeaders'' = Some a \<and>
                             exposed_headers cr = map_option (split_sep CHR '','') (elem_text e) \<and>
                             allowed_headers cr = map_option (split_sep CHR '','') (elem_text a))
           (findall c ''CorsRule'') rules"
      by (rule described)
  next
    assume ok: "(\<exists>lg. if_present (find_elem root ''Logging'') (convert_xml_to_logging py_int) = Inr lg) \<and>
      (\<exists>hm. if_present (find_elem root ''HourMetrics'') (convert_xml_to_metrics py_int) = Inr hm) \<and>
      (\<exists>mm. if_present (find_elem root ''MinuteMetrics'') (convert_xml_to_metrics py_int) = Inr mm) \<and>
      (\<forall>rule \<in> set (findall c ''CorsRule'').
         \<exists>eo os em ms ma n e a.
           find_elem rule ''AllowedOrigins'' = Some eo \<and> elem_text eo = Some os \<and>
           find_elem rule ''AllowedMethods'' = Some em \<and> elem_text em = Some ms \<and>
           find_elem rule ''MaxAgeInSeconds'' = Some ma \<and> int_of py_int (elem_text ma) = Inr n \<and>
           find_elem rule ''ExposedHeaders'' = Some e \<and>
           find_elem rule ''AllowedHeaders'' = Some a)"
    then obtain lg hm mm where
      lg: "if_present (find_elem root ''Logging'') (convert_xml_to_logging py_int) = Inr lg" and
      hm: "if_present (find_elem root ''HourMetrics'') (convert_xml_to_metrics py_int) = Inr hm" and
      mm: "if_present (find_elem root ''MinuteMetrics'') (convert_xml_to_metrics py_int) = Inr mm"
      by blast
    have "\<forall>rule \<in> set (findall c ''CorsRule''). \<exists>cr. convert_cors_rule py_int rule = Inr cr"
    proof
      fix rule assume "rule \<in> set (findall c ''CorsRule'')"
      with ok obtain eo os em ms ma n e a where
        "find_elem rule ''AllowedOrigins'' = Some eo" "elem_text eo = Some os"
        "find_elem rule ''AllowedMethods'' = Some em" "elem_text em = Some ms"
        "find_elem rule ''MaxAgeInSeconds'' = Some ma" "int_of py_int (elem_text ma) = Inr n"
        "find_elem rule ''ExposedHeaders'' = Some e" "find_elem rule ''AllowedHeaders'' = Some a"
        by blast
      from convert_cors_rule_total[OF this]
      show "\<exists>cr. convert_cors_rule py_int rule = Inr cr" by blast
    qed
    from for_append_total[OF this] obtain rules where
      "for_append (convert_cors_rule py_int) [] (findall c ''CorsRule'') = Inr rules"
      by blast
    with assms lg hm mm obtain res where
      run: "convert_xml_to_service_properties fromstring py_int xml = Inr res"
      by (simp add: convert_xml_to_service_properties_def bind_err_Inr if_present_def)
    from described[OF run] run
    show "\<exists>res rules. convert_xml_to_service_properties fromstring py_int xml = Inr res \<and>
         cors res = Some rules \<and>
         list_all2
           (\<lambda>rule cr. \<exists>e a. find_elem rule ''ExposedHeaders'' = Some e \<and>
                             find_elem rule ''AllowedHeaders'' = Some a \<and>
                             exposed_headers cr = map_option (split_sep CHR '','') (elem_text e) \<and>
                             allowed_headers cr = map_option (split_sep CHR '','') (elem_text a))
           (findall c ''CorsRule'') rules"
      by blast
  qed
qed

theorem cors_header_elements_required_witness:
  "example_fromstring cors_textless_xml = Some cors_textless_doc \<and>
   find_elem cors_textless_doc ''Cors'' = Some (hd (elem_children cors_textless_doc)) \<and>
   map elem_text (elem_children (hd (elem_children (hd (elem_children cors_textless_doc))))) =
     [Some ''a.com,b.com'', Some ''GET,PUT'', Some ''5'', None, None] \<and>
   (\<exists>res rules.
      convert_xml_to_service_properties example_fromstring example_int cors_textless_xml = Inr res \<and>
      cors res = Some rules \<and> map exposed_headers rules = [None] \<and>
      map allowed_headers rules = [None]) \<and>
   example_fromstring cors_xml = Some cors_doc \<and>
   find_elem cors_doc ''Cors'' = Some (hd (elem_children cors_doc)) \<and>
   convert_xml_to_service_properties example_fromstring example_int cors_xml =
   Inr \<lparr>sp_logging = None, hour_metrics = None, minute_metrics = None,
        cors = Some [\<lparr>allowed_origins = [''a.com'', ''b.com''], allowed_methods = [''GET'', ''PUT''],
                      max_age_in_seconds = 5, exposed_headers = None,
                      allowed_headers = Some [''x-ms-a'', ''x-ms-b'']\<rparr>],
        target_version = None\<rparr> \<and>
   example_fromstring cors_unexposed_xml = Some cors_unexposed_doc \<and>
   find_elem cors_unexposed_doc ''Cors'' = Some (hd (elem_children cors_unexposed_doc)) \<and>
   (\<exists>rule \<in> set (findall (hd (elem_children cors_unexposed_doc)) ''CorsRule'').
      find_elem rule ''ExposedHeaders'' = None) \<and>
   (\<exists>e. convert_xml_to_service_properties example_fromstring example_int cors_unexposed_xml = Inl e)"
proof -
  let ?rule = "hd (elem_children (hd (elem_children cors_textless_doc)))"
  have c0: "find_elem cors_textless_doc ''Cors'' = Some (hd (elem_children cors_textless_doc))"
    by (simp add: find_elem_def cors_textless_doc_def)
  have texts: "map elem_text (elem_children ?rule) =
     [Some ''a.com,b.com'', Some ''GET,PUT'', Some ''5'', None, None]"
    by (simp add: cors_textless_doc_def)
  have rules0: "findall (hd (elem_children cors_textless_doc)) ''CorsRule'' = [?rule]"
    by (simp add: findall_def cors_textless_doc_def)
  have top: "find_elem cors_textless_doc ''Logging'' = None"
    "find_elem cors_textless_doc ''HourMetrics'' = None"
    "find_elem cors_textless_doc ''MinuteMetrics'' = None"
    by (simp_all add: find_elem_def cors_textless_doc_def)
  have kids: "find_elem ?rule ''AllowedOrigins'' = Some (Element ''AllowedOrigins'' (Some ''a.com,b.com'') [])"
    "find_elem ?rule ''AllowedMethods'' = Some (Element ''AllowedMethods'' (Some ''GET,PUT'') [])"
    "find_elem ?rule ''MaxAgeInSeconds'' = Some (Element ''MaxAgeInSeconds'' (Some ''5'') [])"
    "find_elem ?rule ''ExposedHeaders'' = Some (Element ''ExposedHeaders'' None [])"
    "find_elem ?rule ''AllowedHeaders'' = Some (Element ''AllowedHeaders'' None [])"
    by (simp_all add: find_elem_def cors_textless_doc_def)
  have age: "int_of example_int (Some ''5'') = Inr 5"
    by (simp add: int_of_def example_int_5)
  have prem: "(\<exists>lg. if_present (find_elem cors_textless_doc ''Logging'') (convert_xml_to_logging example_int) = Inr lg) \<and>
      (\<exists>hm. if_present (find_elem cors_textless_doc ''HourMetrics'') (convert_xml_to_metrics example_int) = Inr hm) \<and>
      (\<exists>mm. if_present (find_elem cors_textless_doc ''MinuteMetrics'') (convert_xml_to_metrics example_int) = Inr mm) \<and>
      (\<forall>rule \<in> set (findall (hd (elem_children cors_textless_doc)) ''CorsRule'').
         \<exists>eo os em ms ma n e a.
           find_elem rule ''AllowedOrigins'' = Some eo \<and> elem_text eo = Some os \<and>
           find_elem rule ''AllowedMethods'' = Some em \<and> elem_text em = Some ms \<and>
           find_elem rule ''MaxAgeInSeconds'' = Some ma \<and> int_of example_int (elem_text ma) = Inr n \<and>
           find_elem rule ''ExposedHeaders'' = Some e \<and>
           find_elem rule ''AllowedHeaders'' = Some a)"
    by (simp add: top if_present_def rules0 kids age)
  note i0 = cors_header_elements_required[where fromstring = example_fromstring
      and py_int = example_int, OF example_fromstring_cors_textless c0]
  from i0[THEN conjunct2, THEN conjunct2, THEN mp, OF prem]
  have returns: "\<exists>res rules.
      convert_xml_to_service_properties example_fromstring example_int cors_textless_xml = Inr res \<and>
      cors res = Some rules \<and> map exposed_headers rules = [None] \<and>
      map allowed_headers rules = [None]"
  proof (elim exE conjE)
    fix res rules
    assume run: "convert_xml_to_service_properties example_fromstring example_int cors_textless_xml = Inr res"
      and c: "cors res = Some rules"
      and l: "list_all2
           (\<lambda>rule cr. \<exists>e a. find_elem rule ''ExposedHeaders'' = Some e \<and>
                             find_elem rule ''AllowedHeaders'' = Some a \<and>
                             exposed_headers cr = map_option (split_sep CHR '','') (elem_text e) \<and>
                             allowed_headers cr = map_option (split_sep CHR '','') (elem_text a))
           (findall (hd (elem_children cors_textless_doc)) ''CorsRule'') rules"
    from l obtain cr where rs: "rules = [cr]" and
      f: "\<exists>e a. find_elem ?rule ''ExposedHeaders'' = Some e \<and>
                find_elem ?rule ''AllowedHeaders'' = Some a \<and>
                exposed_headers cr = map_option (split_sep CHR '','') (elem_text e) \<and>
                allowed_headers cr = map_option (split_sep CHR '','') (elem_text a)"
      unfolding rules0 by (auto simp: list_all2_Cons1)
    from f kids(4,5) have "exposed_headers cr = None" "allowed_headers cr = None"
      by auto
    with rs have m: "map exposed_headers rules = [None]" "map allowed_headers rules = [None]"
      by simp_all
    show ?thesis
      by (rule exI[of _ res], rule exI[of _ rules]) (intro conjI; fact run c m)
  qed
  have c1: "find_elem cors_doc ''Cors'' = Some (hd (elem_children cors_doc))"
    by (simp add: find_elem_def cors_doc_def)
  have c2: "find_elem cors_unexposed_doc ''Cors'' = Some (hd (elem_children cors_unexposed_doc))"
    by (simp add: find_elem_def cors_unexposed_doc_def)
  have lack: "\<exists>rule \<in> set (findall (hd (elem_children cors_unexposed_doc)) ''CorsRule'').
      find_elem rule ''ExposedHeaders'' = None"
    by (simp add: findall_def find_elem_def cors_unexposed_doc_def)
  note i2 = cors_header_elements_required[where fromstring = example_fromstring
      and py_int = example_int, OF example_fromstring_cors_unexposed c2]
  from i2 lack have fail:
    "\<exists>e. convert_xml_to_service_properties example_fromstring example_int cors_unexposed_xml = Inl e"
    by blast
  show ?thesis
    by (intro conjI)
      (fact example_fromstring_cors_textless c0 texts returns example_fromstring_cors c1 cors_doc_run
        example_fromstring_cors_unexposed c2 lack fail)+
qed

text \<open>
  The claim as first stated fails on a rule without an \<open>ExposedHeaders\<close>
  element: the parser does not return.
\<close>

theorem cors_exposed_headers_absent_counterexample:
  "convert_xml_to_service_properties example_fromstring example_int cors_unexposed_xml =
   Inl AttributeError"
  by (simp add: convert_xml_to_service_properties_def example_fromstring_cors_unexposed
      cors_unexposed_doc_def if_present_def convert_cors_rule_def find_dot_text_split_def
      CorsRule_def example_simps)

section \<open>Properties of the access-policy parser\<close>

text \<open>
  Claim C7.  In the access-policy parser the \<open>Permission\<close> element is optional.
  The parser returns whenever every \<open>SignedIdentifier\<close> has an \<open>Id\<close> and an
  \<open>AccessPolicy\<close> whose \<open>Start\<close> and \<open>Expiry\<close>, where present, hold a date,
  whether or not \<open>Permission\<close> is there.  In the result, the policy stored
  under the identifier of a \<open>SignedIdentifier\<close> (the last one with that
  identifier) has the permission \<open>None\<close> when \<open>Permission\<close> is absent, and its
  start and expiry are the parsed dates of the elements present and unset for
  the elements absent.
\<close>

theorem permission_optional:
  assumes "fromstring xml = Some list_element"
  shows
    "((\<forall>se \<in> set (findall list_element ''SignedIdentifier'').
         \<exists>ie ap. find_elem se ''Id'' = Some ie \<and> find_elem se ''AccessPolicy'' = Some ap \<and>
           (\<forall>s. find_elem ap ''Start'' = Some s \<longrightarrow>
                (\<exists>d. parser_parse parse_date (elem_text s) = Inr d)) \<and>
           (\<forall>x. find_elem ap ''Expiry'' = Some x \<longrightarrow>
                (\<exists>d. parser_parse parse_date (elem_text x) = Inr d))) \<longrightarrow>
      (\<exists>m. convert_xml_to_signed_identifiers fromstring parse_date xml = Inr m)) \<and>
     (convert_xml_to_signed_identifiers fromstring parse_date xml = Inr m \<and>
      findall list_element ''SignedIdentifier'' = pre @ se # post \<and>
      find_elem se ''Id'' = Some ie \<and> find_elem se ''AccessPolicy'' = Some ap \<and>
      (\<forall>se' \<in> set post. \<forall>ie'. find_elem se' ''Id'' = Some ie' \<longrightarrow> elem_text ie' \<noteq> elem_text ie) \<longrightarrow>
      (\<exists>p. m (elem_text ie) = Some p \<and>
           ap_permission p = findtext ap ''Permission'' \<and>
           (find_elem ap ''Permission'' = None \<longrightarrow> ap_permission p = None) \<and>
           (find_elem ap ''Start'' = None \<longrightarrow> ap_start p = None) \<and>
           (\<forall>s. find_elem ap ''Start'' = Some s \<longrightarrow>
                (\<exists>d. parser_parse parse_date (elem_text s) = Inr d \<and> ap_start p = Some d)) \<and>
           (find_elem ap ''Expiry'' = None \<longrightarrow> ap_expiry p = None) \<and>
           (\<forall>x. find_elem ap ''Expiry'' = Some x \<longrightarrow>
                (\<exists>d. parser_parse parse_date (elem_text x) = Inr d \<and> ap_expiry p = Some d))))"
proof (intro conjI impI)
  assume ok: "\<forall>se \<in> set (findall list_element ''SignedIdentifier'').
         \<exists>ie ap. find_elem se ''Id'' = Some ie \<and> find_elem se ''AccessPolicy'' = Some ap \<and>
           (\<forall>s. find_elem ap ''Start'' = Some s \<longrightarrow>
                (\<exists>d. parser_parse parse_date (elem_text s) = Inr d)) \<and>
           (\<forall>x. find_elem ap ''Expiry'' = Some x \<longrightarrow>
                (\<exists>d. parser_parse parse_date (elem_text x) = Inr d))"
  have "\<forall>se \<in> set (findall list_element ''SignedIdentifier'').
          \<exists>kp. convert_signed_identifier parse_date se = Inr kp"
  proof
    fix se assume "se \<in> set (findall list_element ''SignedIdentifier'')"
    with ok obtain ie ap where
      "find_elem se ''Id'' = Some ie" "find_elem se ''AccessPolicy'' = Some ap"
      "\<forall>s. find_elem ap ''Start'' = Some s \<longrightarrow> (\<exists>d. parser_parse parse_date (elem_text s) = Inr d)"
      "\<forall>x. find_elem ap ''Expiry'' = Some x \<longrightarrow> (\<exists>d. parser_parse parse_date (elem_text x) = Inr d)"
      by blast
    from convert_signed_identifier_total[OF this]
    show "\<exists>kp. convert_signed_identifier parse_date se = Inr kp" by blast
  qed
  from signed_identifiers_loop_total[OF this] assms
  show "\<exists>m. convert_xml_to_signed_identifiers fromstring parse_date xml = Inr m"
    by (simp add: convert_xml_to_signed_identifiers_def)
next
  assume a: "convert_xml_to_signed_identifiers fromstring parse_date xml = Inr m \<and>
      findall list_element ''SignedIdentifier'' = pre @ se # post \<and>
      find_elem se ''Id'' = Some ie \<and> find_elem se ''AccessPolicy'' = Some ap \<and>
      (\<forall>se' \<in> set post. \<forall>ie'. find_elem se' ''Id'' = Some ie' \<longrightarrow> elem_text ie' \<noteq> elem_text ie)"
  with assms have "signed_identifiers_loop parse_date Map.empty (pre @ se # post) = Inr m"
    by (auto simp: convert_xml_to_signed_identifiers_def)
  then obtain m1 k p where
    run_se: "convert_signed_identifier parse_date se = Inr (k, p)" and
    run_post: "signed_identifiers_loop parse_date (m1(k \<mapsto> p)) post = Inr m"
    by (auto simp: signed_identifiers_loop_append split: sum.splits)
  from convert_signed_identifier_Inr[OF run_se] a have
    k: "k = elem_text ie" and
    fields: "ap_permission p = findtext ap ''Permission''"
      "find_elem ap ''Start'' = None \<longrightarrow> ap_start p = None"
      "\<forall>s. find_elem ap ''Start'' = Some s \<longrightarrow>
           (\<exists>d. parser_parse parse_date (elem_text s) = Inr d \<and> ap_start p = Some d)"
      "find_elem ap ''Expiry'' = None \<longrightarrow> ap_expiry p = None"
      "\<forall>x. find_elem ap ''Expiry'' = Some x \<longrightarrow>
           (\<exists>d. parser_parse parse_date (elem_text x) = Inr d \<and> ap_expiry p = Some d)"
    by auto
  have "\<forall>se' \<in> set post. \<forall>p'. convert_signed_identifier parse_date se' \<noteq> Inr (k, p')"
  proof (intro ballI allI notI)
    fix se' p' assume "se' \<in> set post" and "convert_signed_identifier parse_date se' = Inr (k, p')"
    from convert_signed_identifier_Inr[OF this(2)] obtain ie' where
      "find_elem se' ''Id'' = Some ie'" "k = elem_text ie'" by blast
    with a \<open>se' \<in> set post\<close> k show False by force
  qed
  from signed_identifiers_loop_other[OF run_post this] have stored: "m (elem_text ie) = Some p"
    by (simp add: k)
  from fields(1) have perm: "find_elem ap ''Permission'' = None \<longrightarrow> ap_permission p = None"
    by (simp add: findtext_absent)
  show "\<exists>p. m (elem_text ie) = Some p \<and>
           ap_permission p = findtext ap ''Permission'' \<and>
           (find_elem ap ''Permission'' = None \<longrightarrow> ap_permission p = None) \<and>
           (find_elem ap ''Start'' = None \<longrightarrow> ap_start p = None) \<and>
           (\<forall>s. find_elem ap ''Start'' = Some s \<longrightarrow>
                (\<exists>d. parser_parse parse_date (elem_text s) = Inr d \<and> ap_start p = Some d)) \<and>
           (find_elem ap ''Expiry'' = None \<longrightarrow> ap_expiry p = None) \<and>
           (\<forall>x. find_elem ap ''Expiry'' = Some x \<longrightarrow>
                (\<exists>d. parser_parse parse_date (elem_text x) = Inr d \<and> ap_expiry p = Some d))"
    by (rule exI[of _ p]) (intro conjI; fact stored fields perm)
qed

theorem permission_optional_witness:
  "example_fromstring signed_identifiers_xml = Some signed_identifiers_doc \<and>
   findall signed_identifiers_doc ''SignedIdentifier'' = [] @ hd (elem_children signed_identifiers_doc) # [] \<and>
   find_elem (hd (elem_children signed_identifiers_doc)) ''Id'' = Some (Element ''Id'' (Some ''policy1'') []) \<and>
   find_elem (hd (elem_children signed_identifiers_doc)) ''AccessPolicy'' =
     Some (Element ''AccessPolicy'' None [Element ''Start'' (Some ''Thu, 01 Jan 2015 00:00:00 GMT'') []]) \<and>
   find_elem (Element ''AccessPolicy'' None [Element ''Start'' (Some ''Thu, 01 Jan 2015 00:00:00 GMT'') []])
     ''Permission'' = None \<and>
   convert_xml_to_signed_identifiers example_fromstring example_date signed_identifiers_xml =
     Inr [Some ''policy1'' \<mapsto> \<lparr>ap_start = Some 1420070400, ap_expiry = None, ap_permission = None\<rparr>] \<and>
   (\<exists>m. convert_xml_to_signed_identifiers example_fromstring example_date signed_identifiers_xml = Inr m) \<and>
   (\<exists>p. [Some ''policy1'' \<mapsto> \<lparr>ap_start = Some (1420070400::nat), ap_expiry = None, ap_permission = None\<rparr>]
          (Some ''policy1'') = Some p \<and>
        ap_permission p = None \<and> ap_start p = Some 1420070400 \<and> ap_expiry p = None)"
proof -
  let ?se = "hd (elem_children signed_identifiers_doc)"
  let ?ap = "Element ''AccessPolicy'' None [Element ''Start'' (Some ''Thu, 01 Jan 2015 00:00:00 GMT'') []]"
  let ?m = "[Some ''policy1'' \<mapsto> \<lparr>ap_start = Some (1420070400::nat), ap_expiry = None, ap_permission = None\<rparr>]"
  have all: "findall signed_identifiers_doc ''SignedIdentifier'' = [] @ ?se # []"
    by (simp add: findall_def signed_identifiers_doc_def)
  have ident: "find_elem ?se ''Id'' = Some (Element ''Id'' (Some ''policy1'') [])"
    by (simp add: find_elem_def signed_identifiers_doc_def)
  have pol: "find_elem ?se ''AccessPolicy'' = Some ?ap"
    by (simp add: find_elem_def signed_identifiers_doc_def)
  have perm: "find_elem ?ap ''Permission'' = None"
    by (simp add: find_elem_def)
  have start: "find_elem ?ap ''Start'' = Some (Element ''Start'' (Some ''Thu, 01 Jan 2015 00:00:00 GMT'') [])"
    by (simp add: find_elem_def)
  have expiry: "find_elem ?ap ''Expiry'' = None"
    by (simp add: find_elem_def)
  have parses: "parser_parse example_date (Some ''Thu, 01 Jan 2015 00:00:00 GMT'') = Inr 1420070400"
    by (simp add: parser_parse_def example_date_known)
  note inst = permission_optional[where fromstring = example_fromstring and parse_date = example_date,
      OF example_fromstring_signed_identifiers]
  have wf: "\<forall>se \<in> set (findall signed_identifiers_doc ''SignedIdentifier'').
         \<exists>ie ap. find_elem se ''Id'' = Some ie \<and> find_elem se ''AccessPolicy'' = Some ap \<and>
           (\<forall>s. find_elem ap ''Start'' = Some s \<longrightarrow>
                (\<exists>d. parser_parse example_date (elem_text s) = Inr d)) \<and>
           (\<forall>x. find_elem ap ''Expiry'' = Some x \<longrightarrow>
                (\<exists>d. parser_parse example_date (elem_text x) = Inr d))"
    using ident pol start expiry parses by (simp add: all)
  from inst[THEN conjunct1, THEN mp, OF wf]
  have returns: "\<exists>m. convert_xml_to_signed_identifiers example_fromstring example_date
      signed_identifiers_xml = Inr m" .
  have prem: "convert_xml_to_signed_identifiers example_fromstring example_date signed_identifiers_xml = Inr ?m \<and>
      findall signed_identifiers_doc ''SignedIdentifier'' = [] @ ?se # [] \<and>
      find_elem ?se ''Id'' = Some (Element ''Id'' (Some ''policy1'') []) \<and>
      find_elem ?se ''AccessPolicy'' = Some ?ap \<and>
      (\<forall>se' \<in> set []. \<forall>ie'. find_elem se' ''Id'' = Some ie' \<longrightarrow>
         elem_text ie' \<noteq> elem_text (Element ''Id'' (Some ''policy1'') []))"
    using signed_identifiers_doc_run all ident pol by simp
  from inst[THEN conjunct2, THEN mp, OF prem]
  have last: "\<exists>p. ?m (Some ''policy1'') = Some p \<and>
        ap_permission p = None \<and> ap_start p = Some 1420070400 \<and> ap_expiry p = None"
  proof (elim exE conjE)
    fix p
    assume p0: "?m (elem_text (Element ''Id'' (Some ''policy1'') [])) = Some p"
      and p_perm: "find_elem ?ap ''Permission'' = None \<longrightarrow> ap_permission p = None"
      and p_start: "\<forall>s. find_elem ?ap ''Start'' = Some s \<longrightarrow>
           (\<exists>d. parser_parse example_date (elem_text s) = Inr d \<and> ap_start p = Some d)"
      and p_expiry: "find_elem ?ap ''Expiry'' = None \<longrightarrow> ap_expiry p = None"
    from p_perm perm have p1: "ap_permission p = None" by (rule mp)
    from p_expiry expiry have p3: "ap_expiry p = None" by (rule mp)
    from p_start[rule_format, OF start] obtain d where
      d: "parser_parse example_date (elem_text (Element ''Start'' (Some ''Thu, 01 Jan 2015 00:00:00 GMT'') [])) = Inr d"
        "ap_start p = Some d"
      by (elim exE conjE)
    from d(1) parses have "d = 1420070400" by simp
    with d(2) have p2: "ap_start p = Some 1420070400" by simp
    from p0 have "?m (Some ''policy1'') = Some p" by simp
    with p1 p2 p3 show ?thesis by (intro exI[of _ p] conjI)
  qed
  show ?thesis
    by (intro conjI)
      (fact example_fromstring_signed_identifiers all ident pol perm signed_identifiers_doc_run
        returns last)+
qed

section \<open>Properties of the outgoing header builder\<close>

text \<open>
  Claim C9.  When neither collaborator raises, \<open>_update_storage_file_header\<close>
  runs the generic header step, appends to its result the header \<open>x-ms-date\<close>
  with the formatted clock reading and then the header \<open>Content-Type\<close> with
  \<open>application/octet-stream Charset=UTF-8\<close>, calls \<open>sign_request\<close> once, on
  the request carrying both headers, and returns the header list of the
  request as the signer left it.
\<close>

theorem update_storage_file_header_signs_once:
  assumes "update_storage_header request = Inr r1"
    and "sign_request authentication
           (r1\<lparr>req_headers := req_headers r1 @
                [(''x-ms-date'', format_date_time time),
                 (''Content-Type'', ''application/octet-stream Charset=UTF-8'')]\<rparr>) = Inr (a2, r2)"
  shows "\<exists>st signed.
           update_storage_file_header update_storage_header time format_date_time sign_request
             request authentication = Inr (req_headers (cs_request st), st) \<and>
           cs_request st = r2 \<and> cs_auth st = a2 \<and>
           cs_signed st = [signed] \<and>
           signed = r1\<lparr>req_headers := req_headers r1 @
                [(''x-ms-date'', format_date_time time),
                 (''Content-Type'', ''application/octet-stream Charset=UTF-8'')]\<rparr>"
  using assms
  by (simp add: update_storage_file_header_def bind_err_Inr headers_append_def
      call_sign_request_def)

theorem update_storage_file_header_signs_once_witness:
  "example_update_storage_header \<lparr>req_headers = []\<rparr> =
     Inr \<lparr>req_headers = [(''x-ms-version'', ''2015-02-21'')]\<rparr> \<and>
   example_sign_request ()
     \<lparr>req_headers = [(''x-ms-version'', ''2015-02-21''),
                     (''x-ms-date'', ''Thu, 01 Jan 1970 00:00:00 GMT''),
                     (''Content-Type'', ''application/octet-stream Charset=UTF-8'')]\<rparr> =
     Inr ((), \<lparr>req_headers = [(''x-ms-version'', ''2015-02-21''),
                     (''x-ms-date'', ''Thu, 01 Jan 1970 00:00:00 GMT''),
                     (''Content-Type'', ''application/octet-stream Charset=UTF-8''),
                     (''Authorization'', ''SharedKey account:signature'')]\<rparr>) \<and>
   update_storage_file_header example_update_storage_header 0 example_format_date_time
     example_sign_request \<lparr>req_headers = []\<rparr> () =
   Inr ([(''x-ms-version'', ''2015-02-21''),
         (''x-ms-date'', ''Thu, 01 Jan 1970 00:00:00 GMT''),
         (''Content-Type'', ''application/octet-stream Charset=UTF-8''),
         (''Authorization'', ''SharedKey account:signature'')],
        \<lparr>cs_request = \<lparr>req_headers = [(''x-ms-version'', ''2015-02-21''),
                     (''x-ms-date'', ''Thu, 01 Jan 1970 00:00:00 GMT''),
                     (''Content-Type'', ''application/octet-stream Charset=UTF-8''),
                     (''Authorization'', ''SharedKey account:signature'')]\<rparr>,
         cs_auth = (),
         cs_signed = [\<lparr>req_headers = [(''x-ms-version'', ''2015-02-21''),
                     (''x-ms-date'', ''Thu, 01 Jan 1970 00:00:00 GMT''),
                     (''Content-Type'', ''application/octet-stream Charset=UTF-8'')]\<rparr>]\<rparr>)"
proof -
  have u: "example_update_storage_header \<lparr>req_headers = []\<rparr> =
     Inr \<lparr>req_headers = [(''x-ms-version'', ''2015-02-21'')]\<rparr>"
    by (simp add: example_update_storage_header_def)
  have s: "example_sign_request ()
     (\<lparr>req_headers = [(''x-ms-version'', ''2015-02-21'')]\<rparr>
        \<lparr>req_headers := req_headers \<lparr>req_headers = [(''x-ms-version'', ''2015-02-21'')]\<rparr> @
           [(''x-ms-date'', example_format_date_time 0),
            (''Content-Type'', ''application/octet-stream Charset=UTF-8'')]\<rparr>) =
     Inr ((), \<lparr>req_headers = [(''x-ms-version'', ''2015-02-21''),
                     (''x-ms-date'', ''Thu, 01 Jan 1970 00:00:00 GMT''),
                     (''Content-Type'', ''application/octet-stream Charset=UTF-8''),
                     (''Authorization'', ''SharedKey account:signature'')]\<rparr>)"
    by (simp add: example_sign_request_def example_format_date_time_def)
  from update_storage_file_header_signs_once[where update_storage_header = example_update_storage_header
      and request = "\<lparr>req_headers = []\<rparr>" and sign_request = example_sign_request
      and authentication = "()" and format_date_time = example_format_date_time and time = 0,
      OF u s] u s
  show ?thesis
    by (auto simp: example_format_date_time_def example_sign_request_def)
qed

end
